theory Spec2Isabelle
  imports Main "HOL-Library.AList"
begin

section \<open>JavaScript values\<close>

text \<open>
  The SDK passes untyped JavaScript values around. The model keeps the kinds of value the
  code can tell apart: the primitives, \<open>Date\<close> objects (a time value in milliseconds
  since the epoch, or no time value for an Invalid Date), arrays and plain objects (their
  own properties, in insertion order; their prototype is \<open>Object.prototype\<close>, as for
  an object literal or a parsed JSON object). \<open>JBuiltin k\<close> is the member that a plain
  object inherits from \<open>Object.prototype\<close> under the name \<open>k\<close>: a built-in function, or
  for \<open>__proto__\<close> the prototype object itself. Numbers are integers or \<open>NaN\<close>;
  fractions, infinities, symbols, functions written by the caller and objects with
  another prototype are outside the model. A date holds a time value (milliseconds since
  the epoch, in an engine at most \<open>8.64 * 10^15\<close> in magnitude) or none, which is an
  Invalid Date. A string is a list of 8-bit characters.
\<close>

datatype jsval =
    JUndefined
  | JNull
  | JBool bool
  | JNum int
  | JNaN
  | JStr string
  | JDate "int option"
  | JArr "jsval list"
  | JObj "(string \<times> jsval) list"
  | JBuiltin string

text \<open>ToBoolean: what \<open>if (x)\<close>, \<open>!x\<close>, \<open>x || y\<close> and \<open>x && y\<close> test.\<close>

fun truthy :: "jsval \<Rightarrow> bool" where
  "truthy JUndefined = False"
| "truthy JNull = False"
| "truthy (JBool b) = b"
| "truthy (JNum n) = (n \<noteq> 0)"
| "truthy JNaN = False"
| "truthy (JStr s) = (s \<noteq> [])"
| "truthy (JDate t) = True"
| "truthy (JArr xs) = True"
| "truthy (JObj ps) = True"
| "truthy (JBuiltin k) = True"

text \<open>\<open>x === undefined || x === null\<close>\<close>

fun nullish :: "jsval \<Rightarrow> bool" where
  "nullish JUndefined = True"
| "nullish JNull = True"
| "nullish v = False"

text \<open>
  Built-ins of the JavaScript engine whose result depends on the host are parameters of
  the model: \<open>Date.prototype.toString\<close> (the local time zone), the source text that
  \<open>Function.prototype.toString\<close> gives for a built-in function, the digits that
  \<open>Number.prototype.toString\<close> gives for a number beyond the safe integers (the
  shortest digits that read back as the same double, in exponent form from \<open>10^21\<close> on),
  and \<open>StringToNumber\<close> with its full numeric-literal grammar (\<open>None\<close> standing for
  \<open>NaN\<close>).
\<close>

record host =
  dateToString :: "int option \<Rightarrow> string"
  builtinToString :: "string \<Rightarrow> string"
  numberToString :: "int \<Rightarrow> string"
  stringToNumber :: "string \<Rightarrow> int option"

text \<open>\<open>Array.prototype.join\<close> on strings.\<close>

fun join :: "string \<Rightarrow> string list \<Rightarrow> string" where
  "join sep [] = []"
| "join sep [x] = x"
| "join sep (x # y # ys) = x @ sep @ join sep (y # ys)"

fun digits10 :: "nat \<Rightarrow> string" where
  "digits10 n =
     (if n < 10 then [''0123456789'' ! n]
      else digits10 (n div 10) @ [''0123456789'' ! (n mod 10)])"

declare digits10.simps [simp del]

definition show_int :: "int \<Rightarrow> string" where
  "show_int i = (if i < 0 then CHR ''-'' # digits10 (nat (- i)) else digits10 (nat i))"

text \<open>
  ToString, as a template literal \<open>`${v}`\<close> and the \<open>Error\<close> constructor apply it. A
  safe integer (at most \<open>2^53 - 1\<close> in magnitude) is written in plain decimal. The
  prototype object converts like every plain object.
\<close>

definition maxSafeInteger :: int where
  "maxSafeInteger = 9007199254740991"

fun toStr :: "host \<Rightarrow> jsval \<Rightarrow> string" where
  "toStr h JUndefined = ''undefined''"
| "toStr h JNull = ''null''"
| "toStr h (JBool b) = (if b then ''true'' else ''false'')"
| "toStr h (JNum n) = (if abs n \<le> maxSafeInteger then show_int n else numberToString h n)"
| "toStr h JNaN = ''NaN''"
| "toStr h (JStr s) = s"
| "toStr h (JDate t) = dateToString h t"
| "toStr h (JArr xs) = join '','' (map (\<lambda>x. if nullish x then [] else toStr h x) xs)"
| "toStr h (JObj ps) = ''[object Object]''"
| "toStr h (JBuiltin k) =
     (if k = ''__proto__'' then ''[object Object]'' else builtinToString h k)"

text \<open>ToNumber (\<open>None\<close> is \<open>NaN\<close>), as the relational operators apply it.\<close>

fun toNumber :: "host \<Rightarrow> jsval \<Rightarrow> int option" where
  "toNumber h JUndefined = None"
| "toNumber h JNull = Some 0"
| "toNumber h (JBool b) = Some (if b then 1 else 0)"
| "toNumber h (JNum n) = Some n"
| "toNumber h JNaN = None"
| "toNumber h (JStr s) = stringToNumber h s"
| "toNumber h (JDate t) = t"
| "toNumber h (JArr xs) = stringToNumber h (toStr h (JArr xs))"
| "toNumber h (JObj ps) = stringToNumber h (toStr h (JObj ps))"
| "toNumber h (JBuiltin k) = stringToNumber h (toStr h (JBuiltin k))"

text \<open>
  \<open>v <= n\<close>, \<open>v < n\<close> and \<open>v > n\<close> against a numeric literal: false when \<open>v\<close>
  converts to \<open>NaN\<close>.
\<close>

definition js_le :: "host \<Rightarrow> jsval \<Rightarrow> int \<Rightarrow> bool" where
  "js_le h v n = (case toNumber h v of None \<Rightarrow> False | Some x \<Rightarrow> x \<le> n)"

definition js_lt :: "host \<Rightarrow> jsval \<Rightarrow> int \<Rightarrow> bool" where
  "js_lt h v n = (case toNumber h v of None \<Rightarrow> False | Some x \<Rightarrow> x < n)"

definition js_gt :: "host \<Rightarrow> jsval \<Rightarrow> int \<Rightarrow> bool" where
  "js_gt h v n = (case toNumber h v of None \<Rightarrow> False | Some x \<Rightarrow> x > n)"

section \<open>errors.js: SocialPredictError\<close>

record SocialPredictError =
  message :: string
  statusCode :: int
  code :: jsval
  data :: jsval

text \<open>
  \<open>constructor (message, statusCode = 0, code = 'UNKNOWN_ERROR', data = null)\<close>: an
  argument left out (\<open>None\<close>) or passed as \<open>undefined\<close> takes its default;
  \<open>super(message)\<close> stores the message converted to a string.
\<close>

definition SocialPredictError_new ::
  "host \<Rightarrow> jsval \<Rightarrow> int option \<Rightarrow> jsval option \<Rightarrow> jsval option \<Rightarrow> SocialPredictError" where
  "SocialPredictError_new h msg sc cd dt =
     \<lparr> message = (if msg = JUndefined then [] else toStr h msg),
       statusCode = (case sc of None \<Rightarrow> 0 | Some s \<Rightarrow> s),
       code = (case cd of None \<Rightarrow> JStr ''UNKNOWN_ERROR''
                | Some c \<Rightarrow> if c = JUndefined then JStr ''UNKNOWN_ERROR'' else c),
       data = (case dt of None \<Rightarrow> JNull
                | Some d \<Rightarrow> if d = JUndefined then JNull else d) \<rparr>"

definition isNetworkError :: "SocialPredictError \<Rightarrow> bool" where
  "isNetworkError e = (code e = JStr ''NETWORK_ERROR'')"

definition isAuthError :: "SocialPredictError \<Rightarrow> bool" where
  "isAuthError e = (statusCode e = 401 \<or> statusCode e = 403)"

definition isValidationError :: "SocialPredictError \<Rightarrow> bool" where
  "isValidationError e = (statusCode e = 400)"

definition isNotFoundError :: "SocialPredictError \<Rightarrow> bool" where
  "isNotFoundError e = (statusCode e = 404)"

definition isServerError :: "SocialPredictError \<Rightarrow> bool" where
  "isServerError e = (statusCode e \<ge> 500)"

text \<open>
  What a call can throw: a plain \<open>Error\<close> with its message, the engine's \<open>TypeError\<close>
  (a property read on \<open>undefined\<close> or \<open>null\<close>) and \<open>RangeError\<close>
  (\<open>toISOString\<close> of an Invalid Date), or a \<open>SocialPredictError\<close>.
\<close>

datatype thrown =
    PlainError string
  | TypeError
  | RangeError
  | SPError SocialPredictError

fun isErrorType :: "thrown \<Rightarrow> bool" where
  "isErrorType (SPError e) = True"
| "isErrorType t = False"

section \<open>base.js: BaseResource\<close>

text \<open>
  A property read \<open>v[k]\<close> or \<open>v.k\<close> on a value that is neither \<open>undefined\<close> nor
  \<open>null\<close> (on those the engine throws a \<open>TypeError\<close>, which each caller below handles
  before reading). On a plain object the read finds an own property first and then the
  members of \<open>Object.prototype\<close>, whose names are those of the language standard with its
  annex for web browsers; on the prototype object itself \<open>__proto__\<close> is \<open>null\<close>.
  On an array or a string the read finds the \<open>length\<close> and the indexed elements. What
  an array, a string, a number, a boolean or a date inherits, and the properties of a
  built-in function, are outside the model: such a read yields \<open>undefined\<close> here.
\<close>

definition objectPrototypeNames :: "string list" where
  "objectPrototypeNames =
     [''constructor'', ''__defineGetter__'', ''__defineSetter__'', ''hasOwnProperty'',
      ''__lookupGetter__'', ''__lookupSetter__'', ''isPrototypeOf'',
      ''propertyIsEnumerable'', ''toString'', ''valueOf'', ''__proto__'',
      ''toLocaleString'']"

definition inherited :: "string \<Rightarrow> jsval" where
  "inherited k = (if k \<in> set objectPrototypeNames then JBuiltin k else JUndefined)"

definition indexOfKey :: "nat \<Rightarrow> string \<Rightarrow> nat option" where
  "indexOfKey n k = find (\<lambda>i. show_int (int i) = k) [0..<n]"

fun getProp :: "jsval \<Rightarrow> string \<Rightarrow> jsval" where
  "getProp (JObj ps) k = (case map_of ps k of None \<Rightarrow> inherited k | Some v \<Rightarrow> v)"
| "getProp (JArr xs) k =
     (if k = ''length'' then JNum (int (length xs))
      else case indexOfKey (length xs) k of None \<Rightarrow> JUndefined | Some i \<Rightarrow> xs ! i)"
| "getProp (JStr s) k =
     (if k = ''length'' then JNum (int (length s))
      else case indexOfKey (length s) k of None \<Rightarrow> JUndefined | Some i \<Rightarrow> JStr [s ! i])"
| "getProp (JBuiltin b) k =
     (if b = ''__proto__'' then (if k = ''__proto__'' then JNull else inherited k)
      else JUndefined)"
| "getProp v k = JUndefined"

text \<open>
  \<open>required.filter(param => params[param] === undefined || params[param] === null)\<close>
\<close>

definition missing :: "jsval \<Rightarrow> string list \<Rightarrow> string list" where
  "missing params required = filter (\<lambda>param. nullish (getProp params param)) required"

text \<open>
  \<open>validateRequired\<close> returns nothing; the model returns what it throws, if anything.
  The filter callback reads \<open>params[param]\<close> once per required name, so with a
  \<open>params\<close> that is \<open>undefined\<close> or \<open>null\<close> the first read throws.
  \<open>missingMessage\<close> is the template literal
  \<open>`Missing required parameters: ${missing.join(', ')}`\<close>.
\<close>

definition missingMessage :: "string list \<Rightarrow> string" where
  "missingMessage names = ''Missing required parameters: '' @ join '', '' names"

definition validateRequired :: "jsval \<Rightarrow> string list \<Rightarrow> thrown option" where
  "validateRequired params required =
     (if required \<noteq> [] \<and> nullish params then Some TypeError
      else if length (missing params required) > 0
        then Some (PlainError (missingMessage (missing params required)))
        else None)"

text \<open>
  \<open>Date.prototype.toISOString\<close> for a time value \<open>t\<close> (milliseconds since the epoch,
  UTC), with the functions of the language standard that it is built from:
  \<open>Day\<close>, \<open>DaysInYear\<close>, \<open>DayFromYear\<close>, \<open>YearFromTime\<close>, \<open>InLeapYear\<close>,
  \<open>DayWithinYear\<close>, \<open>MonthFromTime\<close> (\<open>0\<close> is January), \<open>DateFromTime\<close>,
  \<open>HourFromTime\<close>, \<open>MinFromTime\<close>, \<open>SecFromTime\<close> and \<open>msFromTime\<close>. The standard
  defines \<open>YearFromTime(t)\<close> as the largest year \<open>y\<close> with \<open>DayFromYear(y) \<le> Day(t)\<close>;
  it is computed here from an estimate that is at most one year off. The string is
  \<open>YYYY-MM-DDTHH:mm:ss.sssZ\<close> with the month counted from \<open>1\<close>, the year written
  with a sign and six digits outside \<open>0..9999\<close>.
\<close>

definition msPerDay :: int where
  "msPerDay = 86400000"

definition Day :: "int \<Rightarrow> int" where
  "Day t = t div msPerDay"

definition DaysInYear :: "int \<Rightarrow> int" where
  "DaysInYear y =
     (if y mod 4 \<noteq> 0 then 365 else if y mod 100 \<noteq> 0 then 366
      else if y mod 400 \<noteq> 0 then 365 else 366)"

definition DayFromYear :: "int \<Rightarrow> int" where
  "DayFromYear y =
     365 * (y - 1970) + (y - 1969) div 4 - (y - 1901) div 100 + (y - 1601) div 400"

definition YearFromDay :: "int \<Rightarrow> int" where
  "YearFromDay day =
     (let y0 = 1970 + (400 * day) div 146097
      in if DayFromYear (y0 + 1) \<le> day then y0 + 1
         else if DayFromYear y0 \<le> day then y0 else y0 - 1)"

definition YearFromTime :: "int \<Rightarrow> int" where
  "YearFromTime t = YearFromDay (Day t)"

definition InLeapYear :: "int \<Rightarrow> int" where
  "InLeapYear t = (if DaysInYear (YearFromTime t) = 366 then 1 else 0)"

definition DayWithinYear :: "int \<Rightarrow> int" where
  "DayWithinYear t = Day t - DayFromYear (YearFromTime t)"

definition MonthFromTime :: "int \<Rightarrow> int" where
  "MonthFromTime t =
     (let d = DayWithinYear t; l = InLeapYear t
      in if d < 31 then 0
         else if d < 59 + l then 1
         else if d < 90 + l then 2
         else if d < 120 + l then 3
         else if d < 151 + l then 4
         else if d < 181 + l then 5
         else if d < 212 + l then 6
         else if d < 243 + l then 7
         else if d < 273 + l then 8
         else if d < 304 + l then 9
         else if d < 334 + l then 10
         else 11)"

definition DateFromTime :: "int \<Rightarrow> int" where
  "DateFromTime t =
     (let d = DayWithinYear t; l = InLeapYear t; m = MonthFromTime t
      in if m = 0 then d + 1
         else if m = 1 then d - 30
         else if m = 2 then d - 58 - l
         else if m = 3 then d - 89 - l
         else if m = 4 then d - 119 - l
         else if m = 5 then d - 150 - l
         else if m = 6 then d - 180 - l
         else if m = 7 then d - 211 - l
         else if m = 8 then d - 242 - l
         else if m = 9 then d - 272 - l
         else if m = 10 then d - 303 - l
         else d - 333 - l)"

definition HourFromTime :: "int \<Rightarrow> int" where
  "HourFromTime t = (t div 3600000) mod 24"

definition MinFromTime :: "int \<Rightarrow> int" where
  "MinFromTime t = (t div 60000) mod 60"

definition SecFromTime :: "int \<Rightarrow> int" where
  "SecFromTime t = (t div 1000) mod 60"

definition msFromTime :: "int \<Rightarrow> int" where
  "msFromTime t = t mod 1000"

definition pad :: "nat \<Rightarrow> nat \<Rightarrow> string" where
  "pad w n = replicate (w - length (digits10 n)) CHR ''0'' @ digits10 n"

definition yearString :: "int \<Rightarrow> string" where
  "yearString y =
     (if 0 \<le> y \<and> y \<le> 9999 then pad 4 (nat y)
      else (if y < 0 then CHR ''-'' else CHR ''+'') # pad 6 (nat (abs y)))"

definition isoFormat :: "int \<Rightarrow> int \<Rightarrow> int \<Rightarrow> int \<Rightarrow> int \<Rightarrow> int \<Rightarrow> int \<Rightarrow> string" where
  "isoFormat y mo d hh mi ss ms =
     yearString y @ ''-'' @ pad 2 (nat mo) @ ''-'' @ pad 2 (nat d)
       @ ''T'' @ pad 2 (nat hh) @ '':'' @ pad 2 (nat mi) @ '':'' @ pad 2 (nat ss)
       @ ''.'' @ pad 3 (nat ms) @ ''Z''"

definition toISOString :: "int \<Rightarrow> string" where
  "toISOString t =
     isoFormat (YearFromTime t) (MonthFromTime t + 1) (DateFromTime t)
       (HourFromTime t) (MinFromTime t) (SecFromTime t) (msFromTime t)"

text \<open>
  The instant that a calendar date and a time of day denote in UTC (the standard's
  \<open>MakeDay\<close>, \<open>MakeTime\<close> and \<open>MakeDate\<close> on fields in their ranges), from the number
  of days before each month, and the number of days of each month: the reading of the
  fields against which \<open>toISOString\<close> is checked below.
\<close>

definition daysInMonth :: "int \<Rightarrow> int \<Rightarrow> int" where
  "daysInMonth y m =
     [31, if DaysInYear y = 366 then 29 else 28, 31, 30, 31, 30, 31, 31, 30, 31, 30, 31] ! nat m"

definition daysBeforeMonth :: "int \<Rightarrow> int \<Rightarrow> int" where
  "daysBeforeMonth y m =
     [0, 31, 59, 90, 120, 151, 181, 212, 243, 273, 304, 334] ! nat m
       + (if 2 \<le> m \<and> DaysInYear y = 366 then 1 else 0)"

definition timeOfFields :: "int \<Rightarrow> int \<Rightarrow> int \<Rightarrow> int \<Rightarrow> int \<Rightarrow> int \<Rightarrow> int \<Rightarrow> int" where
  "timeOfFields y m d hh mi ss ms =
     (DayFromYear y + daysBeforeMonth y m + (d - 1)) * msPerDay
       + hh * 3600000 + mi * 60000 + ss * 1000 + ms"

text \<open>
  \<open>formatDate\<close>: a \<open>Date\<close> is rendered by \<open>toISOString\<close>, which throws a
  \<open>RangeError\<close> on an Invalid Date; every other value is returned as it is.
\<close>

fun formatDate :: "jsval \<Rightarrow> thrown + jsval" where
  "formatDate (JDate (Some t)) = Inr (JStr (toISOString t))"
| "formatDate (JDate None) = Inl RangeError"
| "formatDate v = Inr v"

section \<open>http-client.js: HttpClient\<close>

datatype verb = GET | POST | PUT | PATCH | DELETE

text \<open>
  The request configuration as the axios adapter receives it, after the request
  interceptors: the verb methods pass a path and either query parameters or a body, the
  instance defaults supply base URL, timeout and headers.
\<close>

record request =
  req_method :: verb
  req_baseURL :: string
  req_url :: string
  req_params :: "jsval option"
  req_data :: "jsval option"
  req_timeout :: int
  req_headers :: "(string \<times> string) list"

text \<open>
  What axios rejects a call with: \<open>error.response\<close> (status and parsed body) when the
  server answered outside 2xx, whether \<open>error.request\<close> is set, \<open>error.code\<close> and
  \<open>error.message\<close>. A call that is not rejected is fulfilled with a status and a body.
  The network is a parameter of the model: a function from the request to this outcome.
\<close>

record axios_error =
  err_response :: "(int \<times> jsval) option"
  err_request :: bool
  err_code :: "string option"
  err_message :: string

datatype axios_result = Fulfilled int jsval | Rejected axios_error

type_synonym network = "request \<Rightarrow> axios_result"

text \<open>
  The client: \<open>baseURL\<close> and \<open>token\<close> are its own fields (the token is declared a
  string or \<open>null\<close>; the code stores whatever it is given), \<open>timeout\<close> and
  \<open>headers\<close> are the defaults of its axios instance.
  \<open>history\<close> is not a field of the source: it records every request handed to the
  network, in order, as the tests' mock adapter does, so that "no network call" can be
  stated.
\<close>

record HttpClient =
  baseURL :: string
  token :: jsval
  timeout :: int
  headers :: "(string \<times> string) list"
  history :: "request list"

record options =
  opt_token :: jsval
  opt_timeout :: "int option"
  opt_headers :: "(string \<times> string) list"

text \<open>
  \<open>constructor (baseURL, options = {})\<close>: \<open>options.token || null\<close>,
  \<open>options.timeout || 10000\<close>, and the headers
  \<open>{ 'Content-Type': 'application/json', ...options.headers }\<close>.
\<close>

definition HttpClient_new :: "string \<Rightarrow> options \<Rightarrow> HttpClient" where
  "HttpClient_new url opts =
     \<lparr> baseURL = url,
       token = (if truthy (opt_token opts) then opt_token opts else JNull),
       timeout = (case opt_timeout opts of None \<Rightarrow> 10000
                   | Some n \<Rightarrow> if n \<noteq> 0 then n else 10000),
       headers = fold (\<lambda>(k, v). AList.update k v) (opt_headers opts)
                   [(''Content-Type'', ''application/json'')],
       history = [] \<rparr>"

text \<open>
  The request interceptor:
  \<open>if (this.token && !config.headers.Authorization) config.headers.Authorization = `Bearer ${this.token}`\<close>.
  The header is looked up under exactly the name \<open>Authorization\<close>; a header that is
  absent or the empty string is falsy.
\<close>

definition request_interceptor :: "host \<Rightarrow> HttpClient \<Rightarrow> request \<Rightarrow> request" where
  "request_interceptor h c config =
     (if truthy (token c) \<and> (case map_of (req_headers config) ''Authorization'' of
                                None \<Rightarrow> True | Some a \<Rightarrow> a = [])
      then config\<lparr>req_headers :=
             AList.update ''Authorization'' (''Bearer '' @ toStr h (token c))
               (req_headers config)\<rparr>
      else config)"

text \<open>
  The response interceptor's rejection handler: the value it throws. Reading
  \<open>data.message\<close> throws a \<open>TypeError\<close> when the body is \<open>undefined\<close> or \<open>null\<close>.
\<close>

definition response_rejected :: "host \<Rightarrow> axios_error \<Rightarrow> thrown" where
  "response_rejected h error =
     (case err_response error of
        Some (status, dat) \<Rightarrow>
          if nullish dat then TypeError
          else SPError (SocialPredictError_new h
                 (if truthy (getProp dat ''message'') then getProp dat ''message''
                  else JStr (''HTTP '' @ show_int status @ '' Error''))
                 (Some status)
                 (Some (if truthy (getProp dat ''error'') then getProp dat ''error''
                        else JStr ''API_ERROR''))
                 (Some dat))
      | None \<Rightarrow>
          if err_request error \<or> err_code error = Some ''ECONNABORTED''
             \<or> err_message error = ''Network Error''
          then SPError (SocialPredictError_new h
                 (JStr ''Network error - unable to reach server'') (Some 0)
                 (Some (JStr ''NETWORK_ERROR'')) None)
          else SPError (SocialPredictError_new h
                 (if err_message error \<noteq> [] then JStr (err_message error)
                  else JStr ''Unexpected error'')
                 (Some 0) (Some (JStr ''UNKNOWN_ERROR'')) None))"

definition setToken :: "jsval \<Rightarrow> HttpClient \<Rightarrow> HttpClient" where
  "setToken t c = c\<lparr>token := t\<rparr>"

definition clearToken :: "HttpClient \<Rightarrow> HttpClient" where
  "clearToken c = c\<lparr>token := JNull\<rparr>"

text \<open>
  One call of the axios instance, \<open>this.client.<verb>(...)\<close> followed by
  \<open>return response.data\<close>: the configuration passes the request interceptor, goes to the
  network, and the outcome passes the response interceptor.
\<close>

definition base_config ::
  "HttpClient \<Rightarrow> verb \<Rightarrow> string \<Rightarrow> jsval option \<Rightarrow> jsval option \<Rightarrow> request" where
  "base_config c m path params dat =
     \<lparr> req_method = m, req_baseURL = baseURL c, req_url = path, req_params = params,
       req_data = dat, req_timeout = timeout c, req_headers = headers c \<rparr>"

definition dispatch ::
  "host \<Rightarrow> network \<Rightarrow> HttpClient \<Rightarrow> verb \<Rightarrow> string \<Rightarrow> jsval option \<Rightarrow> jsval option
     \<Rightarrow> (thrown + jsval) \<times> HttpClient" where
  "dispatch h net c m path params dat =
     (let config = request_interceptor h c (base_config c m path params dat);
          c' = c\<lparr>history := history c @ [config]\<rparr>
      in case net config of
           Fulfilled status body \<Rightarrow> (Inr body, c')
         | Rejected error \<Rightarrow> (Inl (response_rejected h error), c'))"

text \<open>A default parameter \<open>= {}\<close> replaces an argument that is \<open>undefined\<close>.\<close>

definition orEmpty :: "jsval \<Rightarrow> jsval" where
  "orEmpty v = (if v = JUndefined then JObj [] else v)"

definition HttpClient_get ::
  "host \<Rightarrow> network \<Rightarrow> HttpClient \<Rightarrow> string \<Rightarrow> jsval \<Rightarrow> (thrown + jsval) \<times> HttpClient" where
  "HttpClient_get h net c path params = dispatch h net c GET path (Some (orEmpty params)) None"

definition HttpClient_post ::
  "host \<Rightarrow> network \<Rightarrow> HttpClient \<Rightarrow> string \<Rightarrow> jsval \<Rightarrow> (thrown + jsval) \<times> HttpClient" where
  "HttpClient_post h net c path dat = dispatch h net c POST path None (Some (orEmpty dat))"

definition HttpClient_put ::
  "host \<Rightarrow> network \<Rightarrow> HttpClient \<Rightarrow> string \<Rightarrow> jsval \<Rightarrow> (thrown + jsval) \<times> HttpClient" where
  "HttpClient_put h net c path dat = dispatch h net c PUT path None (Some (orEmpty dat))"

definition HttpClient_patch ::
  "host \<Rightarrow> network \<Rightarrow> HttpClient \<Rightarrow> string \<Rightarrow> jsval \<Rightarrow> (thrown + jsval) \<times> HttpClient" where
  "HttpClient_patch h net c path dat = dispatch h net c PATCH path None (Some (orEmpty dat))"

definition HttpClient_delete ::
  "host \<Rightarrow> network \<Rightarrow> HttpClient \<Rightarrow> string \<Rightarrow> (thrown + jsval) \<times> HttpClient" where
  "HttpClient_delete h net c path = dispatch h net c DELETE path None None"

text \<open>A call of one of the five verb methods, with its arguments.\<close>

datatype call =
    Get string jsval
  | Post string jsval
  | Put string jsval
  | Patch string jsval
  | Delete string

fun perform :: "host \<Rightarrow> network \<Rightarrow> HttpClient \<Rightarrow> call \<Rightarrow> (thrown + jsval) \<times> HttpClient" where
  "perform h net c (Get path params) = HttpClient_get h net c path params"
| "perform h net c (Post path dat) = HttpClient_post h net c path dat"
| "perform h net c (Put path dat) = HttpClient_put h net c path dat"
| "perform h net c (Patch path dat) = HttpClient_patch h net c path dat"
| "perform h net c (Delete path) = HttpClient_delete h net c path"

section \<open>index.js: SocialPredictClient\<close>

text \<open>
  The client owns one \<open>HttpClient\<close>; its resource objects hold a reference to the same
  one, so the resource methods below take that \<open>HttpClient\<close> and return it updated.
\<close>

record SocialPredictClient =
  httpClient :: HttpClient

definition SocialPredictClient_new :: "string option \<Rightarrow> options \<Rightarrow> SocialPredictClient" where
  "SocialPredictClient_new url opts =
     \<lparr> httpClient = HttpClient_new
         (case url of None \<Rightarrow> ''http://localhost:8080'' | Some u \<Rightarrow> u) opts \<rparr>"

definition client_setToken :: "jsval \<Rightarrow> SocialPredictClient \<Rightarrow> SocialPredictClient" where
  "client_setToken t cl = cl\<lparr>httpClient := setToken t (httpClient cl)\<rparr>"

definition client_clearToken :: "SocialPredictClient \<Rightarrow> SocialPredictClient" where
  "client_clearToken cl = cl\<lparr>httpClient := clearToken (httpClient cl)\<rparr>"

definition getToken :: "SocialPredictClient \<Rightarrow> jsval" where
  "getToken cl = token (httpClient cl)"

text \<open>\<open>!!this.httpClient.token\<close>\<close>

definition isAuthenticated :: "SocialPredictClient \<Rightarrow> bool" where
  "isAuthenticated cl = truthy (token (httpClient cl))"

section \<open>The resource classes\<close>

text \<open>
  Every resource method is \<open>async\<close>: what it throws rejects the promise it returns. The
  model returns what the promise settles with, \<open>Inl\<close> the thrown value or \<open>Inr\<close> the
  parsed body, and the client with the requests of the call added to its history.
\<close>

type_synonym outcome = "(thrown + jsval) \<times> HttpClient"

definition throw :: "thrown \<Rightarrow> HttpClient \<Rightarrow> outcome" where
  "throw e c = (Inl e, c)"

subsection \<open>auth.js: AuthResource\<close>

text \<open>
  \<open>login\<close> reads \<open>credentials.username.length\<close> and \<open>credentials.password.length\<close>
  after the required-field check, so neither value is \<open>undefined\<close> or \<open>null\<close> there.
  After a fulfilled request it reads \<open>response.token\<close>, which throws a \<open>TypeError\<close>
  on a body that is \<open>null\<close> or \<open>undefined\<close>, and stores a truthy token in the client.
\<close>

definition login :: "host \<Rightarrow> network \<Rightarrow> HttpClient \<Rightarrow> jsval \<Rightarrow> outcome" where
  "login h net c credentials =
     (case validateRequired credentials [''username'', ''password''] of
        Some e \<Rightarrow> throw e c
      | None \<Rightarrow>
          if js_lt h (getProp (getProp credentials ''username'') ''length'') 3
             \<or> js_gt h (getProp (getProp credentials ''username'') ''length'') 30
          then throw (PlainError ''Username must be between 3 and 30 characters'') c
          else if js_lt h (getProp (getProp credentials ''password'') ''length'') 1
          then throw (PlainError ''Password must be at least 1 character'') c
          else
            (case HttpClient_post h net c ''/v0/login'' credentials of
               (Inl e, c') \<Rightarrow> (Inl e, c')
             | (Inr response, c') \<Rightarrow>
                 if nullish response then (Inl TypeError, c')
                 else if truthy (getProp response ''token'')
                 then (Inr response, setToken (getProp response ''token'') c')
                 else (Inr response, c')))"

definition logout :: "HttpClient \<Rightarrow> HttpClient" where
  "logout c = clearToken c"

definition auth_isAuthenticated :: "HttpClient \<Rightarrow> bool" where
  "auth_isAuthenticated c = truthy (token c)"

definition auth_getToken :: "HttpClient \<Rightarrow> jsval" where
  "auth_getToken c = token c"

definition auth_setToken :: "jsval \<Rightarrow> HttpClient \<Rightarrow> HttpClient" where
  "auth_setToken t c = setToken t c"

subsection \<open>betting.js: BettingResource\<close>

definition placeBet :: "host \<Rightarrow> network \<Rightarrow> HttpClient \<Rightarrow> jsval \<Rightarrow> outcome" where
  "placeBet h net c betData =
     (case validateRequired betData [''marketId'', ''amount'', ''outcome''] of
        Some e \<Rightarrow> throw e c
      | None \<Rightarrow>
          if js_le h (getProp betData ''amount'') 0
          then throw (PlainError ''Bet amount must be greater than 0'') c
          else HttpClient_post h net c ''/v0/bet'' betData)"

definition getUserPosition :: "host \<Rightarrow> network \<Rightarrow> HttpClient \<Rightarrow> jsval \<Rightarrow> outcome" where
  "getUserPosition h net c marketId =
     (if \<not> truthy marketId then throw (PlainError ''Market ID is required'') c
      else HttpClient_get h net c (''/v0/userposition/'' @ toStr h marketId) JUndefined)"

definition sellPosition :: "host \<Rightarrow> network \<Rightarrow> HttpClient \<Rightarrow> jsval \<Rightarrow> outcome" where
  "sellPosition h net c sellData =
     (case validateRequired sellData [''marketId'', ''amount'', ''outcome''] of
        Some e \<Rightarrow> throw e c
      | None \<Rightarrow>
          if js_le h (getProp sellData ''amount'') 0
          then throw (PlainError ''Sell amount must be greater than 0'') c
          else HttpClient_post h net c ''/v0/sell'' sellData)"

subsection \<open>markets.js: MarketsResource\<close>

definition markets_list :: "host \<Rightarrow> network \<Rightarrow> HttpClient \<Rightarrow> outcome" where
  "markets_list h net c = HttpClient_get h net c ''/v0/markets'' JUndefined"

definition search :: "host \<Rightarrow> network \<Rightarrow> HttpClient \<Rightarrow> jsval \<Rightarrow> outcome" where
  "search h net c query =
     (if \<not> truthy query then throw (PlainError ''Search query is required'') c
      else HttpClient_get h net c ''/v0/markets/search'' (JObj [(''q'', query)]))"

definition listActive :: "host \<Rightarrow> network \<Rightarrow> HttpClient \<Rightarrow> outcome" where
  "listActive h net c = HttpClient_get h net c ''/v0/markets/active'' JUndefined"

definition listClosed :: "host \<Rightarrow> network \<Rightarrow> HttpClient \<Rightarrow> outcome" where
  "listClosed h net c = HttpClient_get h net c ''/v0/markets/closed'' JUndefined"

definition listResolved :: "host \<Rightarrow> network \<Rightarrow> HttpClient \<Rightarrow> outcome" where
  "listResolved h net c = HttpClient_get h net c ''/v0/markets/resolved'' JUndefined"

definition markets_get :: "host \<Rightarrow> network \<Rightarrow> HttpClient \<Rightarrow> jsval \<Rightarrow> outcome" where
  "markets_get h net c marketId =
     (if \<not> truthy marketId then throw (PlainError ''Market ID is required'') c
      else HttpClient_get h net c (''/v0/markets/'' @ toStr h marketId) JUndefined)"

text \<open>
  \<open>projectProbability ({ marketId, amount, outcome })\<close> destructures its argument, which
  throws a \<open>TypeError\<close> on \<open>undefined\<close> and \<open>null\<close>.
\<close>

definition projectProbability :: "host \<Rightarrow> network \<Rightarrow> HttpClient \<Rightarrow> jsval \<Rightarrow> outcome" where
  "projectProbability h net c params =
     (if nullish params then throw TypeError c
      else
        let marketId = getProp params ''marketId'';
            amount = getProp params ''amount'';
            outcome = getProp params ''outcome''
        in case validateRequired
                  (JObj [(''marketId'', marketId), (''amount'', amount), (''outcome'', outcome)])
                  [''marketId'', ''amount'', ''outcome''] of
             Some e \<Rightarrow> throw e c
           | None \<Rightarrow>
               HttpClient_get h net c
                 (''/v0/marketprojection/'' @ toStr h marketId @ ''/'' @ toStr h amount @ ''/''
                    @ toStr h outcome @ ''/'')
                 JUndefined)"

definition getBets :: "host \<Rightarrow> network \<Rightarrow> HttpClient \<Rightarrow> jsval \<Rightarrow> outcome" where
  "getBets h net c marketId =
     (if \<not> truthy marketId then throw (PlainError ''Market ID is required'') c
      else HttpClient_get h net c (''/v0/markets/bets/'' @ toStr h marketId) JUndefined)"

definition getPositions :: "host \<Rightarrow> network \<Rightarrow> HttpClient \<Rightarrow> jsval \<Rightarrow> outcome" where
  "getPositions h net c marketId =
     (if \<not> truthy marketId then throw (PlainError ''Market ID is required'') c
      else HttpClient_get h net c (''/v0/markets/positions/'' @ toStr h marketId) JUndefined)"

definition getUserPositions ::
  "host \<Rightarrow> network \<Rightarrow> HttpClient \<Rightarrow> jsval \<Rightarrow> jsval \<Rightarrow> outcome" where
  "getUserPositions h net c marketId username =
     (case validateRequired (JObj [(''marketId'', marketId), (''username'', username)])
             [''marketId'', ''username''] of
        Some e \<Rightarrow> throw e c
      | None \<Rightarrow>
          HttpClient_get h net c
            (''/v0/markets/positions/'' @ toStr h marketId @ ''/'' @ toStr h username)
            JUndefined)"

definition getLeaderboard :: "host \<Rightarrow> network \<Rightarrow> HttpClient \<Rightarrow> jsval \<Rightarrow> outcome" where
  "getLeaderboard h net c marketId =
     (if \<not> truthy marketId then throw (PlainError ''Market ID is required'') c
      else HttpClient_get h net c (''/v0/markets/leaderboard/'' @ toStr h marketId) JUndefined)"

text \<open>
  The own enumerable properties an object spread \<open>{ ...v }\<close> copies, in order: those of
  a plain object, the indexed elements of an array or a string, none of another value.
\<close>

fun spread :: "jsval \<Rightarrow> (string \<times> jsval) list" where
  "spread (JObj ps) = ps"
| "spread (JArr xs) = zip (map (\<lambda>i. show_int (int i)) [0..<length xs]) xs"
| "spread (JStr s) = zip (map (\<lambda>i. show_int (int i)) [0..<length s]) (map (\<lambda>ch. JStr [ch]) s)"
| "spread v = []"

text \<open>
  \<open>create\<close>: the body is
  \<open>{ ...marketData, resolutionDateTime: this.formatDate(marketData.resolutionDateTime) }\<close>;
  a key that the spread already wrote keeps its place and takes the new value.
\<close>

definition create :: "host \<Rightarrow> network \<Rightarrow> HttpClient \<Rightarrow> jsval \<Rightarrow> outcome" where
  "create h net c marketData =
     (case validateRequired marketData
             [''questionTitle'', ''description'', ''outcomeType'', ''resolutionDateTime''] of
        Some e \<Rightarrow> throw e c
      | None \<Rightarrow>
          (case formatDate (getProp marketData ''resolutionDateTime'') of
             Inl e \<Rightarrow> throw e c
           | Inr d \<Rightarrow>
               HttpClient_post h net c ''/v0/create''
                 (JObj (AList.update ''resolutionDateTime'' d (spread marketData)))))"

definition resolve :: "host \<Rightarrow> network \<Rightarrow> HttpClient \<Rightarrow> jsval \<Rightarrow> jsval \<Rightarrow> outcome" where
  "resolve h net c marketId resolutionResult =
     (case validateRequired
             (JObj [(''marketId'', marketId), (''resolutionResult'', resolutionResult)])
             [''marketId'', ''resolutionResult''] of
        Some e \<Rightarrow> throw e c
      | None \<Rightarrow>
          HttpClient_post h net c (''/v0/resolve/'' @ toStr h marketId)
            (JObj [(''resolutionResult'', resolutionResult)]))"

subsection \<open>users.js: UsersResource\<close>

definition getPublicInfo :: "host \<Rightarrow> network \<Rightarrow> HttpClient \<Rightarrow> jsval \<Rightarrow> outcome" where
  "getPublicInfo h net c username =
     (if \<not> truthy username then throw (PlainError ''Username is required'') c
      else HttpClient_get h net c (''/v0/userinfo/'' @ toStr h username) JUndefined)"

definition getCredit :: "host \<Rightarrow> network \<Rightarrow> HttpClient \<Rightarrow> jsval \<Rightarrow> outcome" where
  "getCredit h net c username =
     (if \<not> truthy username then throw (PlainError ''Username is required'') c
      else HttpClient_get h net c (''/v0/usercredit/'' @ toStr h username) JUndefined)"

definition getPortfolio :: "host \<Rightarrow> network \<Rightarrow> HttpClient \<Rightarrow> jsval \<Rightarrow> outcome" where
  "getPortfolio h net c username =
     (if \<not> truthy username then throw (PlainError ''Username is required'') c
      else HttpClient_get h net c (''/v0/portfolio/'' @ toStr h username) JUndefined)"

definition getFinancial :: "host \<Rightarrow> network \<Rightarrow> HttpClient \<Rightarrow> jsval \<Rightarrow> outcome" where
  "getFinancial h net c username =
     (if \<not> truthy username then throw (PlainError ''Username is required'') c
      else HttpClient_get h net c (''/v0/users/'' @ toStr h username @ ''/financial'') JUndefined)"

definition getPrivateProfile :: "host \<Rightarrow> network \<Rightarrow> HttpClient \<Rightarrow> outcome" where
  "getPrivateProfile h net c = HttpClient_get h net c ''/v0/privateprofile'' JUndefined"

definition changePassword :: "host \<Rightarrow> network \<Rightarrow> HttpClient \<Rightarrow> jsval \<Rightarrow> outcome" where
  "changePassword h net c passwordData =
     (case validateRequired passwordData [''newPassword''] of
        Some e \<Rightarrow> throw e c
      | None \<Rightarrow> HttpClient_post h net c ''/v0/changepassword'' passwordData)"

definition changeDisplayName :: "host \<Rightarrow> network \<Rightarrow> HttpClient \<Rightarrow> jsval \<Rightarrow> outcome" where
  "changeDisplayName h net c displayName =
     (if \<not> truthy displayName then throw (PlainError ''Display name is required'') c
      else HttpClient_post h net c ''/v0/profilechange/displayname''
             (JObj [(''displayName'', displayName)]))"

definition changeEmoji :: "host \<Rightarrow> network \<Rightarrow> HttpClient \<Rightarrow> jsval \<Rightarrow> outcome" where
  "changeEmoji h net c emoji =
     (if \<not> truthy emoji then throw (PlainError ''Emoji is required'') c
      else HttpClient_post h net c ''/v0/profilechange/emoji'' (JObj [(''emoji'', emoji)]))"

definition changeDescription :: "host \<Rightarrow> network \<Rightarrow> HttpClient \<Rightarrow> jsval \<Rightarrow> outcome" where
  "changeDescription h net c description =
     (if \<not> truthy description then throw (PlainError ''Description is required'') c
      else HttpClient_post h net c ''/v0/profilechange/description''
             (JObj [(''description'', description)]))"

text \<open>\<open>typeof v === 'object'\<close>\<close>

fun typeofObject :: "jsval \<Rightarrow> bool" where
  "typeofObject JNull = True"
| "typeofObject (JDate t) = True"
| "typeofObject (JArr xs) = True"
| "typeofObject (JObj ps) = True"
| "typeofObject (JBuiltin k) = (k = ''__proto__'')"
| "typeofObject v = False"

definition changePersonalLinks :: "host \<Rightarrow> network \<Rightarrow> HttpClient \<Rightarrow> jsval \<Rightarrow> outcome" where
  "changePersonalLinks h net c links =
     (if \<not> truthy links \<or> \<not> typeofObject links
      then throw (PlainError ''Links object is required'') c
      else HttpClient_post h net c ''/v0/profilechange/links'' links)"

subsection \<open>admin.js: AdminResource\<close>

text \<open>
  The pattern \<open>/^[^\s@]+@[^\s@]+\.[^\s@]+$/\<close>. A string is a list of 8-bit characters;
  of the white space that \<open>\s\<close> matches, tab, line feed, vertical tab, form feed,
  carriage return, space and the no-break space are in that range. A match is a
  non-empty run of characters of the class, an \<open>@\<close>, and a rest made of characters of
  the class with a dot that is neither its first nor its last character.
\<close>

definition isSpace :: "char \<Rightarrow> bool" where
  "isSpace ch = (of_char ch \<in> {9, 10, 11, 12, 13, 32, 160 :: nat})"

definition emailChar :: "char \<Rightarrow> bool" where
  "emailChar ch = (\<not> isSpace ch \<and> ch \<noteq> CHR ''@'')"

definition emailRegex_test :: "string \<Rightarrow> bool" where
  "emailRegex_test s =
     (takeWhile emailChar s \<noteq> [] \<and>
      (case dropWhile emailChar s of
         [] \<Rightarrow> False
       | x # r \<Rightarrow> x = CHR ''@'' \<and> list_all emailChar r
                  \<and> list_ex (\<lambda>i. r ! i = CHR ''.'') [1..<length r - 1]))"

definition createUser :: "host \<Rightarrow> network \<Rightarrow> HttpClient \<Rightarrow> jsval \<Rightarrow> outcome" where
  "createUser h net c userData =
     (case validateRequired userData
             [''username'', ''displayName'', ''email'', ''password'', ''userType''] of
        Some e \<Rightarrow> throw e c
      | None \<Rightarrow>
          if \<not> emailRegex_test (toStr h (getProp userData ''email''))
          then throw (PlainError ''Invalid email format'') c
          else HttpClient_post h net c ''/v0/admin/createuser'' userData)"

section \<open>Values for the examples\<close>

text \<open>
  The examples below are evaluated on \<open>example_host\<close>, which answers as an engine does
  for an Invalid Date, for a built-in function and for a string that is no numeric
  literal (its other answers are arbitrary: no example converts another date or a number
  beyond the safe integers to a string, or another string to a number), and on a network
  that gives every request the same outcome, as the mock adapter of the tests does.
\<close>

definition example_host :: host where
  "example_host =
     \<lparr> dateToString = (\<lambda>t. ''Invalid Date''),
       builtinToString =
         (\<lambda>k. ''function '' @ (if k = ''constructor'' then ''Object'' else k)
                @ ''() { [native code] }''),
       numberToString = show_int,
       stringToNumber = (\<lambda>s. None) \<rparr>"

definition mock_reply :: "axios_result \<Rightarrow> network" where
  "mock_reply r = (\<lambda>config. r)"

definition no_options :: options where
  "no_options = \<lparr> opt_token = JUndefined, opt_timeout = None, opt_headers = [] \<rparr>"

section \<open>Properties\<close>

subsection \<open>Facts about the JavaScript conversions\<close>

lemma nullish_iff: "nullish v \<longleftrightarrow> v = JUndefined \<or> v = JNull"
  by (cases v) simp_all

lemma falsy_iff:
  "\<not> truthy v \<longleftrightarrow>
     v = JUndefined \<or> v = JNull \<or> v = JBool False \<or> v = JNum 0 \<or> v = JNaN \<or> v = JStr []"
  by (cases v) auto

lemma nullish_inherited: "nullish (inherited n) \<longleftrightarrow> n \<notin> set objectPrototypeNames"
  by (simp add: inherited_def)

lemma nullish_getProp_obj:
  "nullish (getProp (JObj ps) n) \<longleftrightarrow>
     (case map_of ps n of None \<Rightarrow> n \<notin> set objectPrototypeNames
      | Some v \<Rightarrow> v = JUndefined \<or> v = JNull)"
  by (simp add: nullish_inherited nullish_iff [symmetric] split: option.split)

lemma validateRequired_obj_None:
  "(\<forall>n \<in> set required. \<not> nullish (getProp (JObj ps) n))
     \<Longrightarrow> validateRequired (JObj ps) required = None"
  by (simp add: validateRequired_def missing_def filter_empty_conv)

text \<open>
  The test for the email pattern, read as the pattern is written: a non-empty run of the
  class \<open>[^\s@]\<close>, an \<open>@\<close>, a non-empty run of the class, a dot, a non-empty run of
  the class, and nothing else.
\<close>

lemma emailChar_dot: "emailChar CHR ''.''"
  by (simp add: emailChar_def isSpace_def)

lemma emailChar_at: "\<not> emailChar CHR ''@''"
  by (simp add: emailChar_def)

lemma emailRegex_test_iff:
  "emailRegex_test s \<longleftrightarrow>
     (\<exists>a b c. s = a @ ''@'' @ b @ ''.'' @ c \<and> a \<noteq> [] \<and> b \<noteq> [] \<and> c \<noteq> []
        \<and> list_all emailChar a \<and> list_all emailChar b \<and> list_all emailChar c)"
proof
  assume t: "emailRegex_test s"
  let ?a = "takeWhile emailChar s"
  from t obtain x r where dr: "dropWhile emailChar s = x # r"
    by (auto simp: emailRegex_test_def split: list.splits)
  with t have x: "x = CHR ''@''" and allr: "list_all emailChar r"
    and ex: "list_ex (\<lambda>i. r ! i = CHR ''.'') [1..<length r - 1]"
    and a: "?a \<noteq> []"
    by (auto simp: emailRegex_test_def)
  from ex obtain i where i: "1 \<le> i" "i < length r - 1" "r ! i = CHR ''.''"
    by (auto simp: list_ex_iff)
  then have il: "i < length r" by simp
  have r: "r = take i r @ ''.'' @ drop (Suc i) r"
    using id_take_nth_drop [OF il] i(3) by simp
  have s: "s = ?a @ ''@'' @ take i r @ ''.'' @ drop (Suc i) r"
    using takeWhile_dropWhile_id [of emailChar s] dr x r by simp
  have "take i r \<noteq> []" using i il by auto
  moreover have "drop (Suc i) r \<noteq> []" using i by simp
  moreover have "list_all emailChar ?a"
    by (simp add: list_all_iff) (meson set_takeWhileD)
  moreover have "list_all emailChar (take i r)" "list_all emailChar (drop (Suc i) r)"
    using allr by (auto simp: list_all_iff dest: in_set_takeD in_set_dropD)
  ultimately show "\<exists>a b c. s = a @ ''@'' @ b @ ''.'' @ c \<and> a \<noteq> [] \<and> b \<noteq> [] \<and> c \<noteq> []
        \<and> list_all emailChar a \<and> list_all emailChar b \<and> list_all emailChar c"
    using s a by blast
next
  assume "\<exists>a b c. s = a @ ''@'' @ b @ ''.'' @ c \<and> a \<noteq> [] \<and> b \<noteq> [] \<and> c \<noteq> []
        \<and> list_all emailChar a \<and> list_all emailChar b \<and> list_all emailChar c"
  then obtain a b c where s: "s = a @ CHR ''@'' # (b @ CHR ''.'' # c)"
    and ne: "a \<noteq> []" "b \<noteq> []" "c \<noteq> []"
    and al: "list_all emailChar a" "list_all emailChar b" "list_all emailChar c"
    by auto
  from al(1) have tw: "takeWhile emailChar s = a"
    unfolding s by (simp add: list_all_iff emailChar_at)
  from al(1) have dw: "dropWhile emailChar s = CHR ''@'' # (b @ CHR ''.'' # c)"
    unfolding s by (simp add: list_all_iff emailChar_at)
  have "0 < length b" "0 < length c"
    using ne by simp_all
  then have "length b \<in> set [1..<length (b @ CHR ''.'' # c) - 1]"
    by (simp add: Suc_le_eq)
  moreover have "(b @ CHR ''.'' # c) ! length b = CHR ''.''" by simp
  ultimately have "list_ex (\<lambda>i. (b @ CHR ''.'' # c) ! i = CHR ''.'')
                     [1..<length (b @ CHR ''.'' # c) - 1]"
    unfolding list_ex_iff by blast
  then show "emailRegex_test s"
    using ne al by (simp add: emailRegex_test_def tw dw emailChar_dot)
qed

text \<open>
  \<open>toISOString\<close> on the epoch, on a leap day, on the last millisecond before the epoch
  and in the year before year \<open>0\<close>.
\<close>

lemma toISOString_epoch: "toISOString 0 = ''1970-01-01T00:00:00.000Z''"
  by code_simp

lemma toISOString_leap_day: "toISOString 1709210096789 = ''2024-02-29T12:34:56.789Z''"
  by code_simp

lemma toISOString_before_epoch: "toISOString (- 1) = ''1969-12-31T23:59:59.999Z''"
  by code_simp

lemma toISOString_negative_year:
  "toISOString (- 62198755200000) = ''-000001-01-01T00:00:00.000Z''"
  by code_simp

subsection \<open>Facts about the calendar\<close>

text \<open>
  The year of a day is the largest year that starts on or before it, the day within the
  year falls into exactly one month, and the fields that \<open>toISOString\<close> prints denote
  the time value they were computed from.
\<close>

lemma div_bounds:
  fixes a k :: int
  assumes "0 < k"
  shows "k * (a div k) \<le> a" and "a < k * (a div k) + k"
proof -
  have "a = k * (a div k) + a mod k" by simp
  moreover have "0 \<le> a mod k" "a mod k < k" using assms by simp_all
  ultimately show "k * (a div k) \<le> a" "a < k * (a div k) + k" by linarith+
qed

lemma div_succ:
  fixes a k :: int
  assumes "0 < k"
  shows "(a + 1) div k = a div k + (if (a + 1) mod k = 0 then 1 else 0)"
proof (cases "(a + 1) mod k = 0")
  case True
  have "a + 1 = k * ((a + 1) div k) + (a + 1) mod k" by simp
  with True have "a + 1 = k * ((a + 1) div k)" by simp
  then have "a = k * ((a + 1) div k - 1) + (k - 1)" by (simp add: algebra_simps)
  then have "a div k = (a + 1) div k - 1"
    using assms int_div_pos_eq [of a k "(a + 1) div k - 1" "k - 1"] by simp
  with True show ?thesis by simp
next
  case False
  have r: "0 \<le> (a + 1) mod k" "(a + 1) mod k < k" using assms by simp_all
  have "a + 1 = k * ((a + 1) div k) + (a + 1) mod k" by simp
  then have "a = k * ((a + 1) div k) + ((a + 1) mod k - 1)" by linarith
  then have "a div k = (a + 1) div k"
    using r False int_div_pos_eq [of a k "(a + 1) div k" "(a + 1) mod k - 1"] by simp
  with False show ?thesis by simp
qed

lemma mod_shift: "((y::int) - k * c) mod k = y mod k"
  using mod_mult_self2 [of y k "- c"] by simp

lemma year_length: "DayFromYear (y + 1) = DayFromYear y + DaysInYear y"
proof -
  have m4: "(y - 1968) mod 4 = y mod 4" using mod_shift [of y 4 492] by simp
  have m100: "(y - 1900) mod 100 = y mod 100" using mod_shift [of y 100 19] by simp
  have m400: "(y - 1600) mod 400 = y mod 400" using mod_shift [of y 400 4] by simp
  have a4: "(y + 1 - 1969) div 4 = (y - 1969) div 4 + (if y mod 4 = 0 then 1 else 0)"
    using div_succ [of 4 "y - 1969"] m4 by (simp add: algebra_simps)
  have a100: "(y + 1 - 1901) div 100 = (y - 1901) div 100 + (if y mod 100 = 0 then 1 else 0)"
    using div_succ [of 100 "y - 1901"] m100 by (simp add: algebra_simps)
  have a400: "(y + 1 - 1601) div 400 = (y - 1601) div 400 + (if y mod 400 = 0 then 1 else 0)"
    using div_succ [of 400 "y - 1601"] m400 by (simp add: algebra_simps)
  have d1: "y mod 100 = 0" if "y mod 400 = 0"
  proof -
    have "(100::int) dvd 400" by simp
    moreover have "400 dvd y" using that by (rule mod_0_imp_dvd)
    ultimately have "100 dvd y" by (rule dvd_trans)
    then show ?thesis by (rule dvd_imp_mod_0)
  qed
  have d2: "y mod 4 = 0" if "y mod 100 = 0"
  proof -
    have "(4::int) dvd 100" by simp
    moreover have "100 dvd y" using that by (rule mod_0_imp_dvd)
    ultimately have "4 dvd y" by (rule dvd_trans)
    then show ?thesis by (rule dvd_imp_mod_0)
  qed
  note d = d1 d2
  show ?thesis
    unfolding DayFromYear_def DaysInYear_def a4 a100 a400 using d by auto
qed

lemma estimate_low: "DayFromYear (1970 + (400 * day) div 146097 - 1) \<le> day"
proof -
  define q where "q = (400 * day) div 146097"
  have "146097 * q \<le> 400 * day"
    unfolding q_def using div_bounds(1) [of 146097 "400 * day"] by simp
  moreover have "4 * ((q - 1 + 1) div 4) \<le> q - 1 + 1"
    using div_bounds(1) [of 4 "q - 1 + 1"] by simp
  moreover have "q - 1 + 69 < 100 * ((q - 1 + 69) div 100) + 100"
    using div_bounds(2) [of 100 "q - 1 + 69"] by simp
  moreover have "400 * ((q - 1 + 369) div 400) \<le> q - 1 + 369"
    using div_bounds(1) [of 400 "q - 1 + 369"] by simp
  ultimately show ?thesis
    unfolding DayFromYear_def q_def [symmetric] by simp
qed

lemma estimate_high: "day < DayFromYear (1970 + (400 * day) div 146097 + 2)"
proof -
  define q where "q = (400 * day) div 146097"
  have "400 * day < 146097 * q + 146097"
    unfolding q_def using div_bounds(2) [of 146097 "400 * day"] by simp
  moreover have "q + 2 + 1 < 4 * ((q + 2 + 1) div 4) + 4"
    using div_bounds(2) [of 4 "q + 2 + 1"] by simp
  moreover have "100 * ((q + 2 + 69) div 100) \<le> q + 2 + 69"
    using div_bounds(1) [of 100 "q + 2 + 69"] by simp
  moreover have "q + 2 + 369 < 400 * ((q + 2 + 369) div 400) + 400"
    using div_bounds(2) [of 400 "q + 2 + 369"] by simp
  ultimately show ?thesis
    unfolding DayFromYear_def q_def [symmetric] by simp
qed

lemma YearFromDay_bounds:
  "DayFromYear (YearFromDay day) \<le> day \<and> day < DayFromYear (YearFromDay day + 1)"
  using estimate_low [of day] estimate_high [of day]
  by (auto simp: YearFromDay_def Let_def algebra_simps)

lemma YearFromTime_bounds:
  "DayFromYear (YearFromTime t) \<le> Day t \<and> Day t < DayFromYear (YearFromTime t + 1)"
  unfolding YearFromTime_def by (rule YearFromDay_bounds)

lemma DaysInYear_pos: "365 \<le> DaysInYear y"
  by (simp add: DaysInYear_def)

lemma DayFromYear_mono: "y \<le> y' \<Longrightarrow> DayFromYear y \<le> DayFromYear y'"
proof (induction rule: int_ge_induct)
  case base
  show ?case by simp
next
  case (step i)
  then show ?case using year_length [of i] DaysInYear_pos [of i] by simp
qed

lemma YearFromTime_largest:
  assumes "DayFromYear y \<le> Day t"
  shows "y \<le> YearFromTime t"
proof (rule ccontr)
  assume "\<not> y \<le> YearFromTime t"
  then have "YearFromTime t + 1 \<le> y" by simp
  then have "DayFromYear (YearFromTime t + 1) \<le> DayFromYear y" by (rule DayFromYear_mono)
  with assms YearFromTime_bounds [of t] show False by simp
qed

lemma DayWithinYear_range: "0 \<le> DayWithinYear t \<and> DayWithinYear t < 365 + InLeapYear t"
  using YearFromDay_bounds [of "Day t"] year_length [of "YearFromTime t"]
  by (auto simp: DayWithinYear_def InLeapYear_def YearFromTime_def DaysInYear_def
        split: if_splits)

lemma leap01: "InLeapYear t = 0 \<or> InLeapYear t = 1"
  by (simp add: InLeapYear_def)

lemma month_cases:
  "(MonthFromTime t = 0 \<and> DayWithinYear t < 31)
   \<or> (MonthFromTime t = 1 \<and> 31 \<le> DayWithinYear t \<and> DayWithinYear t < 59 + InLeapYear t)
   \<or> (MonthFromTime t = 2 \<and> 59 + InLeapYear t \<le> DayWithinYear t
        \<and> DayWithinYear t < 90 + InLeapYear t)
   \<or> (MonthFromTime t = 3 \<and> 90 + InLeapYear t \<le> DayWithinYear t
        \<and> DayWithinYear t < 120 + InLeapYear t)
   \<or> (MonthFromTime t = 4 \<and> 120 + InLeapYear t \<le> DayWithinYear t
        \<and> DayWithinYear t < 151 + InLeapYear t)
   \<or> (MonthFromTime t = 5 \<and> 151 + InLeapYear t \<le> DayWithinYear t
        \<and> DayWithinYear t < 181 + InLeapYear t)
   \<or> (MonthFromTime t = 6 \<and> 181 + InLeapYear t \<le> DayWithinYear t
        \<and> DayWithinYear t < 212 + InLeapYear t)
   \<or> (MonthFromTime t = 7 \<and> 212 + InLeapYear t \<le> DayWithinYear t
        \<and> DayWithinYear t < 243 + InLeapYear t)
   \<or> (MonthFromTime t = 8 \<and> 243 + InLeapYear t \<le> DayWithinYear t
        \<and> DayWithinYear t < 273 + InLeapYear t)
   \<or> (MonthFromTime t = 9 \<and> 273 + InLeapYear t \<le> DayWithinYear t
        \<and> DayWithinYear t < 304 + InLeapYear t)
   \<or> (MonthFromTime t = 10 \<and> 304 + InLeapYear t \<le> DayWithinYear t
        \<and> DayWithinYear t < 334 + InLeapYear t)
   \<or> (MonthFromTime t = 11 \<and> 334 + InLeapYear t \<le> DayWithinYear t)"
  using leap01 [of t] by (auto simp: MonthFromTime_def Let_def)

lemma Month_range: "0 \<le> MonthFromTime t \<and> MonthFromTime t \<le> 11"
  using month_cases [of t] by auto

lemma day_of_month:
  "daysBeforeMonth (YearFromTime t) (MonthFromTime t) + (DateFromTime t - 1) = DayWithinYear t"
  using month_cases [of t]
  by (elim disjE conjE) (simp_all add: daysBeforeMonth_def DateFromTime_def InLeapYear_def)

lemma daysInMonth_leap:
  "daysInMonth (YearFromTime t) m
     = [31, 28 + InLeapYear t, 31, 30, 31, 30, 31, 31, 30, 31, 30, 31] ! nat m"
  by (simp add: daysInMonth_def InLeapYear_def)

lemma Date_within_month:
  "1 \<le> DateFromTime t \<and> DateFromTime t \<le> daysInMonth (YearFromTime t) (MonthFromTime t)"
  using month_cases [of t] DayWithinYear_range [of t]
  unfolding daysInMonth_leap
  by (elim disjE conjE) (simp_all add: DateFromTime_def)

lemma time_ranges:
  "0 \<le> HourFromTime t \<and> HourFromTime t < 24 \<and> 0 \<le> MinFromTime t \<and> MinFromTime t < 60
   \<and> 0 \<le> SecFromTime t \<and> SecFromTime t < 60 \<and> 0 \<le> msFromTime t \<and> msFromTime t < 1000"
  by (simp add: HourFromTime_def MinFromTime_def SecFromTime_def msFromTime_def)

lemma time_within_day:
  "t mod 86400000
     = HourFromTime t * 3600000 + MinFromTime t * 60000 + SecFromTime t * 1000 + msFromTime t"
proof -
  have a: "t mod (3600000 * 24) = 3600000 * (t div 3600000 mod 24) + t mod 3600000"
    by (rule zmod_zmult2_eq) simp
  have b: "t mod (60000 * 60) = 60000 * (t div 60000 mod 60) + t mod 60000"
    by (rule zmod_zmult2_eq) simp
  have c: "t mod (1000 * 60) = 1000 * (t div 1000 mod 60) + t mod 1000"
    by (rule zmod_zmult2_eq) simp
  have n: "(3600000::int) * 24 = 86400000" "(60000::int) * 60 = 3600000" "(1000::int) * 60 = 60000"
    by simp_all
  show ?thesis
    using a b c unfolding n HourFromTime_def MinFromTime_def SecFromTime_def msFromTime_def
    by linarith
qed

lemma fields_denote_time:
  "timeOfFields (YearFromTime t) (MonthFromTime t) (DateFromTime t)
     (HourFromTime t) (MinFromTime t) (SecFromTime t) (msFromTime t) = t"
proof -
  have "DayFromYear (YearFromTime t) + daysBeforeMonth (YearFromTime t) (MonthFromTime t)
          + (DateFromTime t - 1) = Day t"
    using day_of_month [of t] by (simp add: DayWithinYear_def)
  moreover have "t = Day t * 86400000 + t mod 86400000"
    by (simp add: Day_def msPerDay_def)
  ultimately show ?thesis
    using time_within_day [of t] by (simp add: timeOfFields_def msPerDay_def)
qed

subsection \<open>Facts about a verb call\<close>

lemma dispatch_history:
  "history (snd (dispatch h net c m p q d))
     = history c @ [request_interceptor h c (base_config c m p q d)]"
  by (simp add: dispatch_def Let_def split: axios_result.split)

lemma dispatch_result:
  "fst (dispatch h net c m p q d)
     = (case net (request_interceptor h c (base_config c m p q d)) of
          Fulfilled s b \<Rightarrow> Inr b
        | Rejected e \<Rightarrow> Inl (response_rejected h e))"
  by (simp add: dispatch_def Let_def split: axios_result.split)

lemma perform_dispatch:
  "\<exists>m p q d. perform h net c call = dispatch h net c m p q d"
  by (cases call)
     (auto simp: HttpClient_get_def HttpClient_post_def HttpClient_put_def HttpClient_patch_def
        HttpClient_delete_def)

lemma interceptor_adds_bearer:
  assumes "truthy (token c)"
    and "map_of (req_headers config) ''Authorization'' = None
         \<or> map_of (req_headers config) ''Authorization'' = Some []"
  shows "request_interceptor h c config
           = config\<lparr>req_headers :=
               AList.update ''Authorization'' (''Bearer '' @ toStr h (token c))
                 (req_headers config)\<rparr>"
  using assms by (auto simp: request_interceptor_def)

lemma interceptor_without_token:
  assumes "\<not> truthy (token c)"
  shows "request_interceptor h c config = config"
  using assms by (simp add: request_interceptor_def)

lemma base_config_headers [simp]: "req_headers (base_config c m p q d) = headers c"
  by (simp add: base_config_def)

subsection \<open>SocialPredictError\<close>

text \<open>
  C5. For every SocialPredictError the classification predicates are functions of its
  \<open>statusCode\<close> and \<open>code\<close> fields alone: \<open>isNetworkError\<close> holds iff \<open>code\<close> is
  \<open>"NETWORK_ERROR"\<close>, \<open>isAuthError\<close> iff \<open>statusCode\<close> is 401 or 403,
  \<open>isValidationError\<close> iff it is 400, \<open>isNotFoundError\<close> iff it is 404 and
  \<open>isServerError\<close> iff it is at least 500; changing \<open>message\<close> and \<open>data\<close> changes
  none of them.
\<close>

theorem predicates_of_status_and_code:
  fixes e :: SocialPredictError
  shows "(isNetworkError e \<longleftrightarrow> code e = JStr ''NETWORK_ERROR'')
       \<and> (isAuthError e \<longleftrightarrow> statusCode e = 401 \<or> statusCode e = 403)
       \<and> (isValidationError e \<longleftrightarrow> statusCode e = 400)
       \<and> (isNotFoundError e \<longleftrightarrow> statusCode e = 404)
       \<and> (isServerError e \<longleftrightarrow> statusCode e \<ge> 500)
       \<and> isNetworkError (e\<lparr>message := m, data := d\<rparr>) = isNetworkError e
       \<and> isAuthError (e\<lparr>message := m, data := d\<rparr>) = isAuthError e
       \<and> isValidationError (e\<lparr>message := m, data := d\<rparr>) = isValidationError e
       \<and> isNotFoundError (e\<lparr>message := m, data := d\<rparr>) = isNotFoundError e
       \<and> isServerError (e\<lparr>message := m, data := d\<rparr>) = isServerError e"
  by (simp add: isNetworkError_def isAuthError_def isValidationError_def isNotFoundError_def
        isServerError_def)

theorem predicates_of_status_and_code_witness:
  "isNotFoundError \<lparr>message = ''Not found'', statusCode = 404, code = JStr ''NOT_FOUND'', data = JNull\<rparr>
   \<and> \<not> isServerError \<lparr>message = ''Not found'', statusCode = 404, code = JStr ''NOT_FOUND'', data = JNull\<rparr>
   \<and> \<not> isNetworkError \<lparr>message = ''Not found'', statusCode = 404, code = JStr ''NOT_FOUND'', data = JNull\<rparr>
   \<and> isServerError \<lparr>message = ''Bad gateway'', statusCode = 502, code = JStr ''SERVER_ERROR'', data = JNull\<rparr>"
  using predicates_of_status_and_code
          [of "\<lparr>message = ''Not found'', statusCode = 404, code = JStr ''NOT_FOUND'', data = JNull\<rparr>"]
        predicates_of_status_and_code
          [of "\<lparr>message = ''Bad gateway'', statusCode = 502, code = JStr ''SERVER_ERROR'', data = JNull\<rparr>"]
  by simp

subsection \<open>validateRequired\<close>

text \<open>
  C4. For every parameter object and every non-empty list of required names of which some
  are absent, \<open>validateRequired\<close> throws one error whose message is
  \<open>"Missing required parameters: "\<close> followed by all the absent names, in the order of
  the required list (a name as often as the list has it), joined by a comma and a space.
  A name is absent when the read \<open>params[name]\<close> is \<open>undefined\<close> or \<open>null\<close>: the
  object has a property of that name whose value is \<open>undefined\<close> or \<open>null\<close>, or it
  has none and the name is not one that every object inherits (\<open>constructor\<close>,
  \<open>toString\<close>, ...). With no absent name the call returns normally.
\<close>

theorem validateRequired_lists_missing:
  assumes "required \<noteq> []"
    and "\<exists>n \<in> set required. nullish (getProp (JObj ps) n)"
  shows "validateRequired (JObj ps) required =
           Some (PlainError (''Missing required parameters: '' @ join '', ''
             (filter (\<lambda>n. case map_of ps n of None \<Rightarrow> n \<notin> set objectPrototypeNames
                            | Some v \<Rightarrow> v = JUndefined \<or> v = JNull) required)))"
proof -
  have m: "missing (JObj ps) required =
             filter (\<lambda>n. case map_of ps n of None \<Rightarrow> n \<notin> set objectPrototypeNames
                           | Some v \<Rightarrow> v = JUndefined \<or> v = JNull) required"
    unfolding missing_def by (simp only: nullish_getProp_obj)
  from assms(2) have "missing (JObj ps) required \<noteq> []"
    unfolding missing_def by (simp add: filter_empty_conv)
  then show ?thesis
    unfolding validateRequired_def missingMessage_def m[symmetric] by simp
qed

theorem validateRequired_lists_missing_witness:
  "validateRequired (JObj [(''marketId'', JNum 1), (''note'', JNull)])
       [''marketId'', ''constructor'', ''amount'', ''note'', ''outcome'']
     = Some (PlainError ''Missing required parameters: amount, note, outcome'')"
  using validateRequired_lists_missing
          [of "[''marketId'', ''constructor'', ''amount'', ''note'', ''outcome'']"
              "[(''marketId'', JNum 1), (''note'', JNull)]"]
  by (simp add: inherited_def objectPrototypeNames_def)

text \<open>
  C8. \<open>validateRequired\<close> counts a parameter as present whenever its value is neither
  \<open>undefined\<close> nor \<open>null\<close>: a required name whose value is \<open>0\<close>, \<open>false\<close> or the
  empty string is not among the missing names, and an object with every required value
  present passes. So \<open>placeBet({marketId: 1, amount: 0, outcome: "yes"})\<close> passes the
  required-field check and fails the positivity rule, without a request.
\<close>

theorem falsy_values_are_present:
  "(\<not> nullish (getProp (JObj ps) n) \<longrightarrow> n \<notin> set (missing (JObj ps) required))
   \<and> (map_of ps n = Some v \<and> (v = JNum 0 \<or> v = JBool False \<or> v = JStr [])
        \<longrightarrow> n \<notin> set (missing (JObj ps) required))
   \<and> ((\<forall>n \<in> set required. \<not> nullish (getProp (JObj ps) n))
        \<longrightarrow> validateRequired (JObj ps) required = None)
   \<and> validateRequired
        (JObj [(''marketId'', JNum 1), (''amount'', JNum 0), (''outcome'', JStr ''yes'')])
        [''marketId'', ''amount'', ''outcome''] = None
   \<and> placeBet h net c
        (JObj [(''marketId'', JNum 1), (''amount'', JNum 0), (''outcome'', JStr ''yes'')])
        = (Inl (PlainError ''Bet amount must be greater than 0''), c)"
proof (intro conjI impI)
  show "n \<notin> set (missing (JObj ps) required)" if "\<not> nullish (getProp (JObj ps) n)"
    using that by (simp add: missing_def)
  show "n \<notin> set (missing (JObj ps) required)"
    if "map_of ps n = Some v \<and> (v = JNum 0 \<or> v = JBool False \<or> v = JStr [])"
    using that by (auto simp: missing_def)
  show "validateRequired (JObj ps) required = None"
    if "\<forall>n \<in> set required. \<not> nullish (getProp (JObj ps) n)"
    using that by (rule validateRequired_obj_None)
  show v: "validateRequired
        (JObj [(''marketId'', JNum 1), (''amount'', JNum 0), (''outcome'', JStr ''yes'')])
        [''marketId'', ''amount'', ''outcome''] = None"
    by (simp add: validateRequired_def missing_def)
  show "placeBet h net c
        (JObj [(''marketId'', JNum 1), (''amount'', JNum 0), (''outcome'', JStr ''yes'')])
        = (Inl (PlainError ''Bet amount must be greater than 0''), c)"
    by (simp add: placeBet_def v js_le_def throw_def)
qed

theorem falsy_values_are_present_witness:
  "''amount'' \<notin> set (missing (JObj [(''amount'', JNum 0), (''outcome'', JStr [])])
                        [''marketId'', ''amount'', ''outcome''])
   \<and> ''outcome'' \<notin> set (missing (JObj [(''amount'', JNum 0), (''outcome'', JStr [])])
                        [''marketId'', ''amount'', ''outcome''])
   \<and> validateRequired (JObj [(''amount'', JNum 0), (''outcome'', JStr [])])
        [''amount'', ''outcome''] = None
   \<and> placeBet example_host (mock_reply (Fulfilled 201 JNull))
        (HttpClient_new ''http://localhost:8080'' no_options)
        (JObj [(''marketId'', JNum 1), (''amount'', JNum 0), (''outcome'', JStr ''yes'')])
      = (Inl (PlainError ''Bet amount must be greater than 0''),
         HttpClient_new ''http://localhost:8080'' no_options)"
  using falsy_values_are_present
          [of "[(''amount'', JNum 0), (''outcome'', JStr [])]" "''amount''"
              "[''marketId'', ''amount'', ''outcome'']" "JNum 0"]
        falsy_values_are_present
          [of "[(''amount'', JNum 0), (''outcome'', JStr [])]" "''outcome''"
              "[''marketId'', ''amount'', ''outcome'']" "JStr []"]
        falsy_values_are_present
          [of "[(''amount'', JNum 0), (''outcome'', JStr [])]" "''outcome''"
              "[''amount'', ''outcome'']" "JStr []" example_host
              "mock_reply (Fulfilled 201 JNull)"
              "HttpClient_new ''http://localhost:8080'' no_options"]
  by simp

subsection \<open>Guards on a single identifier\<close>

text \<open>
  C9. The read methods with one argument test it for truthiness: for every falsy argument
  (\<open>undefined\<close>, \<open>null\<close>, \<open>false\<close>, \<open>0\<close>, \<open>NaN\<close> and the empty string),
  \<open>markets.get\<close>, \<open>markets.getBets\<close> and \<open>betting.getUserPosition\<close> throw
  \<open>"Market ID is required"\<close> and \<open>markets.search\<close> throws \<open>"Search query is required"\<close>;
  the client comes back as it was, so no request was made.
\<close>

theorem falsy_identifier_is_rejected:
  "(\<not> truthy v \<longleftrightarrow>
       v = JUndefined \<or> v = JNull \<or> v = JBool False \<or> v = JNum 0 \<or> v = JNaN \<or> v = JStr [])
   \<and> (\<not> truthy v \<longrightarrow>
         markets_get h net c v = (Inl (PlainError ''Market ID is required''), c)
       \<and> getBets h net c v = (Inl (PlainError ''Market ID is required''), c)
       \<and> getUserPosition h net c v = (Inl (PlainError ''Market ID is required''), c)
       \<and> search h net c v = (Inl (PlainError ''Search query is required''), c))"
  by (simp add: falsy_iff markets_get_def getBets_def getUserPosition_def search_def throw_def)

theorem falsy_identifier_is_rejected_witness:
  "markets_get example_host (mock_reply (Fulfilled 200 JNull))
       (HttpClient_new ''http://localhost:8080'' no_options) (JNum 0)
     = (Inl (PlainError ''Market ID is required''),
        HttpClient_new ''http://localhost:8080'' no_options)
   \<and> getBets example_host (mock_reply (Fulfilled 200 JNull))
       (HttpClient_new ''http://localhost:8080'' no_options) (JNum 0)
     = (Inl (PlainError ''Market ID is required''),
        HttpClient_new ''http://localhost:8080'' no_options)
   \<and> getUserPosition example_host (mock_reply (Fulfilled 200 JNull))
       (HttpClient_new ''http://localhost:8080'' no_options) (JStr [])
     = (Inl (PlainError ''Market ID is required''),
        HttpClient_new ''http://localhost:8080'' no_options)
   \<and> search example_host (mock_reply (Fulfilled 200 JNull))
       (HttpClient_new ''http://localhost:8080'' no_options) (JStr [])
     = (Inl (PlainError ''Search query is required''),
        HttpClient_new ''http://localhost:8080'' no_options)"
  using falsy_identifier_is_rejected
          [of "JNum 0" example_host "mock_reply (Fulfilled 200 JNull)"
              "HttpClient_new ''http://localhost:8080'' no_options"]
        falsy_identifier_is_rejected
          [of "JStr []" example_host "mock_reply (Fulfilled 200 JNull)"
              "HttpClient_new ''http://localhost:8080'' no_options"]
  by simp

subsection \<open>The bearer token\<close>

text \<open>
  C2, as amended. Every verb call hands one request to the network. While the token is
  truthy (for a string: not empty) and the client's headers declare no Authorization
  header (or an empty one), that request carries \<open>Authorization: Bearer <token>\<close>;
  while the token is \<open>null\<close> or the empty string, the request's headers are the
  client's headers, with nothing added.
\<close>

theorem bearer_token_attached:
  "\<exists>r. history (snd (perform h net c call)) = history c @ [r]
     \<and> (truthy (token c)
          \<and> (map_of (headers c) ''Authorization'' = None
             \<or> map_of (headers c) ''Authorization'' = Some [])
        \<longrightarrow> map_of (req_headers r) ''Authorization'' = Some (''Bearer '' @ toStr h (token c)))
     \<and> (token c = JStr t \<and> t \<noteq> []
          \<and> (map_of (headers c) ''Authorization'' = None
             \<or> map_of (headers c) ''Authorization'' = Some [])
        \<longrightarrow> map_of (req_headers r) ''Authorization'' = Some (''Bearer '' @ t))
     \<and> (token c = JNull \<or> token c = JStr [] \<longrightarrow> req_headers r = headers c)"
proof -
  obtain m p q d where pd: "perform h net c call = dispatch h net c m p q d"
    using perform_dispatch by blast
  let ?r = "request_interceptor h c (base_config c m p q d)"
  have "history (snd (perform h net c call)) = history c @ [?r]"
    by (simp add: pd dispatch_history)
  moreover have tr: "map_of (req_headers ?r) ''Authorization''
                       = Some (''Bearer '' @ toStr h (token c))"
    if "truthy (token c)
          \<and> (map_of (headers c) ''Authorization'' = None
             \<or> map_of (headers c) ''Authorization'' = Some [])"
    using that interceptor_adds_bearer [of c "base_config c m p q d" h]
    by (simp add: update_Some_unfold)
  moreover have "map_of (req_headers ?r) ''Authorization'' = Some (''Bearer '' @ t)"
    if "token c = JStr t \<and> t \<noteq> []
          \<and> (map_of (headers c) ''Authorization'' = None
             \<or> map_of (headers c) ''Authorization'' = Some [])"
    using that tr by simp
  moreover have "req_headers ?r = headers c" if "token c = JNull \<or> token c = JStr []"
    using that by (auto simp: interceptor_without_token)
  ultimately show ?thesis by blast
qed

theorem bearer_token_attached_witness:
  "map_of (req_headers (last (history (snd (perform example_host
      (mock_reply (Fulfilled 200 JNull))
      (setToken (JStr ''test-token'') (HttpClient_new ''http://localhost:8080'' no_options))
      (Get ''/test'' JUndefined)))))) ''Authorization'' = Some ''Bearer test-token''
   \<and> req_headers (last (history (snd (perform example_host
      (mock_reply (Fulfilled 200 JNull))
      (HttpClient_new ''http://localhost:8080'' no_options)
      (Get ''/test'' JUndefined))))) = [(''Content-Type'', ''application/json'')]"
  using bearer_token_attached
          [of example_host "mock_reply (Fulfilled 200 JNull)"
              "setToken (JStr ''test-token'') (HttpClient_new ''http://localhost:8080'' no_options)"
              "Get ''/test'' JUndefined" "''test-token''"]
        bearer_token_attached
          [of example_host "mock_reply (Fulfilled 200 JNull)"
              "HttpClient_new ''http://localhost:8080'' no_options"
              "Get ''/test'' JUndefined" "''x''"]
  by (auto simp: HttpClient_new_def no_options_def setToken_def)

text \<open>
  The claim as first stated asks for the header whenever the token is not \<open>null\<close>. After
  \<open>setToken("")\<close> the token is not \<open>null\<close> and no header is declared, yet the request
  of \<open>get('/v0/markets')\<close> carries no Authorization header.
\<close>

theorem empty_token_sends_no_bearer:
  "token (setToken (JStr []) (HttpClient_new ''http://localhost:8080'' no_options)) \<noteq> JNull
   \<and> map_of (headers (setToken (JStr []) (HttpClient_new ''http://localhost:8080'' no_options)))
        ''Authorization'' = None
   \<and> map_of (req_headers (last (history (snd (perform example_host
        (mock_reply (Fulfilled 200 JNull))
        (setToken (JStr []) (HttpClient_new ''http://localhost:8080'' no_options))
        (Get ''/v0/markets'' JUndefined)))))) ''Authorization'' = None"
  by (simp add: HttpClient_new_def no_options_def setToken_def HttpClient_get_def dispatch_def
        request_interceptor_def base_config_def mock_reply_def Let_def)

text \<open>
  C10. An empty-string token behaves as no token: a client constructed with token \<open>""\<close>
  stores \<open>null\<close> and is not authenticated; while the token is \<open>""\<close> or \<open>null\<close> the
  request interceptor returns the configuration unchanged and \<open>isAuthenticated\<close> is false.
  For a token that is \<open>null\<close> or a string, \<open>isAuthenticated\<close> holds iff it is a
  non-empty string, and on a request that declares no Authorization header the
  interceptor sets one (the bearer token) iff it is a non-empty string. A verb call with
  token \<open>""\<close> has the outcome and sends the request of the same call with token
  \<open>null\<close>.
\<close>

theorem empty_token_is_no_token:
  "token (HttpClient_new url (opts\<lparr>opt_token := JStr []\<rparr>)) = JNull
   \<and> \<not> isAuthenticated (SocialPredictClient_new u (opts\<lparr>opt_token := JStr []\<rparr>))
   \<and> (token c = JNull \<or> token c = JStr [] \<longrightarrow> request_interceptor h c config = config)
   \<and> (token (httpClient cl) = JNull \<or> token (httpClient cl) = JStr [] \<longrightarrow>
        \<not> isAuthenticated cl)
   \<and> (token (httpClient cl) = JNull \<or> token (httpClient cl) = JStr s \<longrightarrow>
        (isAuthenticated cl \<longleftrightarrow> token (httpClient cl) = JStr s \<and> s \<noteq> []))
   \<and> (map_of (req_headers config) ''Authorization'' = None
       \<and> (token c = JNull \<or> token c = JStr s) \<longrightarrow>
        map_of (req_headers (request_interceptor h c config)) ''Authorization''
          = (if token c = JStr s \<and> s \<noteq> [] then Some (''Bearer '' @ s) else None))
   \<and> fst (perform h net (c\<lparr>token := JStr []\<rparr>) call)
        = fst (perform h net (c\<lparr>token := JNull\<rparr>) call)
   \<and> history (snd (perform h net (c\<lparr>token := JStr []\<rparr>) call))
        = history (snd (perform h net (c\<lparr>token := JNull\<rparr>) call))"
proof (intro conjI impI)
  show "token (HttpClient_new url (opts\<lparr>opt_token := JStr []\<rparr>)) = JNull"
    by (simp add: HttpClient_new_def)
  show "\<not> isAuthenticated (SocialPredictClient_new u (opts\<lparr>opt_token := JStr []\<rparr>))"
    by (simp add: isAuthenticated_def SocialPredictClient_new_def HttpClient_new_def)
  show "request_interceptor h c config = config" if "token c = JNull \<or> token c = JStr []"
    using that by (auto simp: interceptor_without_token)
  show "\<not> isAuthenticated cl"
    if "token (httpClient cl) = JNull \<or> token (httpClient cl) = JStr []"
    using that by (auto simp: isAuthenticated_def)
  show "isAuthenticated cl \<longleftrightarrow> token (httpClient cl) = JStr s \<and> s \<noteq> []"
    if "token (httpClient cl) = JNull \<or> token (httpClient cl) = JStr s"
    using that by (auto simp: isAuthenticated_def)
  show "map_of (req_headers (request_interceptor h c config)) ''Authorization''
          = (if token c = JStr s \<and> s \<noteq> [] then Some (''Bearer '' @ s) else None)"
    if "map_of (req_headers config) ''Authorization'' = None
        \<and> (token c = JNull \<or> token c = JStr s)"
    using that by (auto simp: request_interceptor_def update_Some_unfold)
  have d: "dispatch h net (c\<lparr>token := JStr []\<rparr>) m p q d
             = (fst (dispatch h net (c\<lparr>token := JNull\<rparr>) m p q d),
                (snd (dispatch h net (c\<lparr>token := JNull\<rparr>) m p q d))\<lparr>token := JStr []\<rparr>)"
    for m p q d
    by (simp add: dispatch_def request_interceptor_def base_config_def Let_def
          split: axios_result.split)
  have p: "perform h net (c\<lparr>token := JStr []\<rparr>) call
             = (fst (perform h net (c\<lparr>token := JNull\<rparr>) call),
                (snd (perform h net (c\<lparr>token := JNull\<rparr>) call))\<lparr>token := JStr []\<rparr>)"
    by (cases call)
       (simp_all add: HttpClient_get_def HttpClient_post_def HttpClient_put_def
          HttpClient_patch_def HttpClient_delete_def d)
  show "fst (perform h net (c\<lparr>token := JStr []\<rparr>) call)
        = fst (perform h net (c\<lparr>token := JNull\<rparr>) call)"
    by (subst p) simp
  show "history (snd (perform h net (c\<lparr>token := JStr []\<rparr>) call))
        = history (snd (perform h net (c\<lparr>token := JNull\<rparr>) call))"
    by (subst p) simp
qed

theorem empty_token_is_no_token_witness:
  "token (HttpClient_new ''http://localhost:8080'' (no_options\<lparr>opt_token := JStr []\<rparr>)) = JNull
   \<and> \<not> isAuthenticated (SocialPredictClient_new None (no_options\<lparr>opt_token := JStr []\<rparr>))
   \<and> request_interceptor example_host (setToken (JStr []) (HttpClient_new ''http://localhost:8080'' no_options))
        (base_config (HttpClient_new ''http://localhost:8080'' no_options) GET ''/v0/home''
           (Some (JObj [])) None)
      = base_config (HttpClient_new ''http://localhost:8080'' no_options) GET ''/v0/home''
           (Some (JObj [])) None
   \<and> \<not> isAuthenticated \<lparr>httpClient = setToken (JStr [])
                            (HttpClient_new ''http://localhost:8080'' no_options)\<rparr>
   \<and> isAuthenticated \<lparr>httpClient = setToken (JStr ''jwt'')
                            (HttpClient_new ''http://localhost:8080'' no_options)\<rparr>
   \<and> map_of (req_headers (request_interceptor example_host
         (setToken (JStr ''jwt'') (HttpClient_new ''http://localhost:8080'' no_options))
         (base_config (HttpClient_new ''http://localhost:8080'' no_options) GET ''/v0/home''
            (Some (JObj [])) None))) ''Authorization'' = Some ''Bearer jwt''"
  using empty_token_is_no_token
          [where url = "''http://localhost:8080''" and opts = no_options and u = None
             and c = "setToken (JStr []) (HttpClient_new ''http://localhost:8080'' no_options)"
             and config = "base_config (HttpClient_new ''http://localhost:8080'' no_options)
                 GET ''/v0/home'' (Some (JObj [])) None"
             and cl = "\<lparr>httpClient = setToken (JStr [])
                            (HttpClient_new ''http://localhost:8080'' no_options)\<rparr>"
             and s = "[]" and h = example_host and net = "mock_reply (Fulfilled 200 JNull)"
             and call = "Get ''/v0/home'' JUndefined"]
        empty_token_is_no_token
          [where url = "''http://localhost:8080''" and opts = no_options and u = None
             and c = "setToken (JStr ''jwt'') (HttpClient_new ''http://localhost:8080'' no_options)"
             and config = "base_config (HttpClient_new ''http://localhost:8080'' no_options)
                 GET ''/v0/home'' (Some (JObj [])) None"
             and cl = "\<lparr>httpClient = setToken (JStr ''jwt'')
                            (HttpClient_new ''http://localhost:8080'' no_options)\<rparr>"
             and s = "''jwt''" and h = example_host and net = "mock_reply (Fulfilled 200 JNull)"
             and call = "Get ''/v0/home'' JUndefined"]
  by (simp add: setToken_def HttpClient_new_def no_options_def base_config_def)

text \<open>
  C7, as amended. \<open>setToken\<close> replaces the token and \<open>clearToken\<close> sets it to \<open>null\<close>;
  neither changes the base URL, the timeout, the headers or the history of requests (no
  I/O). After \<open>setToken(t)\<close> then \<open>clearToken()\<close>, \<open>isAuthenticated\<close> is false and the
  interceptor adds no Authorization header: the request of every later verb call carries
  exactly the headers given at construction.
\<close>

theorem token_updates_change_only_the_token:
  "setToken t c = c\<lparr>token := t\<rparr> \<and> clearToken c = c\<lparr>token := JNull\<rparr>
   \<and> baseURL (setToken t c) = baseURL c \<and> timeout (setToken t c) = timeout c
   \<and> headers (setToken t c) = headers c \<and> history (setToken t c) = history c
   \<and> baseURL (clearToken c) = baseURL c \<and> timeout (clearToken c) = timeout c
   \<and> headers (clearToken c) = headers c \<and> history (clearToken c) = history c
   \<and> httpClient (client_clearToken (client_setToken t cl)) = (httpClient cl)\<lparr>token := JNull\<rparr>
   \<and> \<not> isAuthenticated (client_clearToken (client_setToken t cl))
   \<and> request_interceptor example_host (clearToken (setToken t c)) config = config
   \<and> (\<exists>m p q d. history (snd (perform h net (clearToken (setToken t c)) call))
                    = history c @ [base_config c m p q d])"
proof (intro conjI)
  show "request_interceptor example_host (clearToken (setToken t c)) config = config"
    by (simp add: request_interceptor_def clearToken_def)
  show "\<not> isAuthenticated (client_clearToken (client_setToken t cl))"
    by (simp add: isAuthenticated_def client_clearToken_def client_setToken_def clearToken_def)
  obtain m p q d where
    pd: "perform h net (clearToken (setToken t c)) call
           = dispatch h net (clearToken (setToken t c)) m p q d"
    using perform_dispatch by blast
  have "history (snd (perform h net (clearToken (setToken t c)) call))
          = history c @ [base_config c m p q d]"
    by (simp add: pd dispatch_history request_interceptor_def)
       (simp add: clearToken_def setToken_def base_config_def)
  then show "\<exists>m p q d. history (snd (perform h net (clearToken (setToken t c)) call))
                    = history c @ [base_config c m p q d]"
    by blast
qed (simp_all add: setToken_def clearToken_def client_clearToken_def client_setToken_def)

theorem token_updates_change_only_the_token_witness:
  "clearToken (setToken (JStr ''T'') (HttpClient_new ''http://localhost:8080'' no_options))
     = HttpClient_new ''http://localhost:8080'' no_options
   \<and> \<not> isAuthenticated (client_clearToken (client_setToken (JStr ''T'')
          (SocialPredictClient_new None no_options)))
   \<and> request_interceptor example_host
        (clearToken (setToken (JStr ''T'') (HttpClient_new ''http://localhost:8080'' no_options)))
        (base_config (HttpClient_new ''http://localhost:8080'' no_options) GET ''/v0/home''
           (Some (JObj [])) None)
      = base_config (HttpClient_new ''http://localhost:8080'' no_options) GET ''/v0/home''
           (Some (JObj [])) None"
  using token_updates_change_only_the_token
          [where t = "JStr ''T''" and c = "HttpClient_new ''http://localhost:8080'' no_options"
             and cl = "SocialPredictClient_new None no_options"
             and config = "base_config (HttpClient_new ''http://localhost:8080'' no_options) GET
                 ''/v0/home'' (Some (JObj [])) None"
             and h = example_host and net = "mock_reply (Fulfilled 200 JNull)"
             and call = "Get ''/v0/home'' JUndefined"]
  by (simp add: HttpClient_new_def no_options_def setToken_def clearToken_def)

text \<open>
  The claim as first stated says that no later request carries an Authorization header.
  A client constructed with \<open>headers: { Authorization: 'Basic dXNlcjpwdw==' }\<close> is not
  authenticated after \<open>setToken("T")\<close> and \<open>clearToken()\<close>, and the request of its next
  \<open>get('/v0/home')\<close> still carries that header.
\<close>

theorem declared_authorization_survives_clearToken:
  "\<not> isAuthenticated \<lparr>httpClient = clearToken (setToken (JStr ''T'')
        (HttpClient_new ''http://localhost:8080''
           (no_options\<lparr>opt_headers := [(''Authorization'', ''Basic dXNlcjpwdw=='')]\<rparr>)))\<rparr>
   \<and> map_of (req_headers (last (history (snd (perform example_host
        (mock_reply (Fulfilled 200 JNull))
        (clearToken (setToken (JStr ''T'')
           (HttpClient_new ''http://localhost:8080''
              (no_options\<lparr>opt_headers := [(''Authorization'', ''Basic dXNlcjpwdw=='')]\<rparr>))))
        (Get ''/v0/home'' JUndefined)))))) ''Authorization'' = Some ''Basic dXNlcjpwdw==''"
  by (simp add: HttpClient_new_def no_options_def setToken_def clearToken_def HttpClient_get_def
        dispatch_def request_interceptor_def base_config_def mock_reply_def Let_def
        isAuthenticated_def)

subsection \<open>The response interceptor\<close>






lemma rejected_with_null_body:
  assumes "err_response error = Some (status, body)" and "nullish body"
  shows "response_rejected h error = TypeError"
  using assms by (simp add: response_rejected_def)

text \<open>
  A response whose parsed body is \<open>null\<close> (or \<open>undefined\<close>) makes the rejection
  handler throw the engine's \<open>TypeError\<close> while it reads \<open>data.message\<close>: the verb call
  throws that \<open>TypeError\<close> and no SocialPredictError is built.
\<close>

theorem null_body_throws_TypeError:
  assumes "history (snd (perform h net c call)) = history c @ [r]"
    and "net r = Rejected error"
    and "err_response error = Some (status, body)" and "nullish body"
  shows "fst (perform h net c call) = Inl TypeError"
proof -
  obtain m p q d where pd: "perform h net c call = dispatch h net c m p q d"
    using perform_dispatch by blast
  from assms(1) have "r = request_interceptor h c (base_config c m p q d)"
    by (simp add: pd dispatch_history)
  with assms(2) have "fst (perform h net c call) = Inl (response_rejected h error)"
    by (simp add: pd dispatch_result)
  then show ?thesis
    using assms(3,4) by (simp add: rejected_with_null_body)
qed

theorem null_body_throws_TypeError_witness:
  "fst (perform example_host
          (mock_reply (Rejected \<lparr> err_response = Some (500, JNull), err_request = True,
             err_code = Some ''ERR_BAD_RESPONSE'',
             err_message = ''Request failed with status code 500'' \<rparr>))
          (HttpClient_new ''http://localhost:8080'' no_options) (Get ''/v0/stats'' JUndefined))
     = Inl TypeError"
proof -
  let ?c = "HttpClient_new ''http://localhost:8080'' no_options"
  let ?e = "\<lparr> err_response = Some (500, JNull), err_request = True,
             err_code = Some ''ERR_BAD_RESPONSE'',
             err_message = ''Request failed with status code 500'' \<rparr>"
  have h: "history (snd (perform example_host (mock_reply (Rejected ?e)) ?c
                           (Get ''/v0/stats'' JUndefined)))
             = history ?c @ [base_config ?c GET ''/v0/stats'' (Some (JObj [])) None]"
    by (simp add: HttpClient_get_def dispatch_history orEmpty_def)
       (simp add: request_interceptor_def HttpClient_new_def no_options_def)
  show ?thesis
    using null_body_throws_TypeError [OF h, of ?e 500 JNull]
    by (simp add: mock_reply_def)
qed





subsection \<open>Local validation in the resource methods\<close>

lemma validateRequired_missing:
  assumes "\<not> nullish params" and "missing params required \<noteq> []"
  shows "validateRequired params required
           = Some (PlainError (missingMessage (missing params required)))"
  using assms by (simp add: validateRequired_def)

lemma validateRequired_complete:
  assumes "\<not> nullish params" and "missing params required = []"
  shows "validateRequired params required = None"
  using assms by (simp add: validateRequired_def)

lemma missing_rebuilt3:
  shows "missing (JObj [(a, getProp params a), (b, getProp params b), (d, getProp params d)]) [a, b, d]
           = missing params [a, b, d]"
  by (simp add: missing_def)

lemma betting_validation:
  assumes "\<not> nullish params"
  shows "(missing params [''marketId'', ''amount'', ''outcome''] \<noteq> [] \<longrightarrow>
            placeBet h net c params
              = (Inl (PlainError (missingMessage
                   (missing params [''marketId'', ''amount'', ''outcome'']))), c)
          \<and> sellPosition h net c params
              = (Inl (PlainError (missingMessage
                   (missing params [''marketId'', ''amount'', ''outcome'']))), c))
       \<and> (missing params [''marketId'', ''amount'', ''outcome''] = []
            \<and> js_le h (getProp params ''amount'') 0 \<longrightarrow>
            placeBet h net c params = (Inl (PlainError ''Bet amount must be greater than 0''), c)
          \<and> sellPosition h net c params
              = (Inl (PlainError ''Sell amount must be greater than 0''), c))"
  using assms
  by (simp add: placeBet_def sellPosition_def validateRequired_missing
        validateRequired_complete throw_def)

lemma markets_validation:
  assumes "\<not> nullish params"
  shows "(missing params [''marketId'', ''amount'', ''outcome''] \<noteq> [] \<longrightarrow>
            projectProbability h net c params
              = (Inl (PlainError (missingMessage
                   (missing params [''marketId'', ''amount'', ''outcome'']))), c))
       \<and> (missing params [''questionTitle'', ''description'', ''outcomeType'',
                            ''resolutionDateTime''] \<noteq> [] \<longrightarrow>
            create h net c params
              = (Inl (PlainError (missingMessage
                   (missing params [''questionTitle'', ''description'', ''outcomeType'',
                                    ''resolutionDateTime'']))), c))"
proof (intro conjI impI)
  assume m: "missing params [''marketId'', ''amount'', ''outcome''] \<noteq> []"
  have "validateRequired
          (JObj [(''marketId'', getProp params ''marketId''),
                 (''amount'', getProp params ''amount''),
                 (''outcome'', getProp params ''outcome'')])
          [''marketId'', ''amount'', ''outcome'']
        = Some (PlainError (missingMessage
            (missing params [''marketId'', ''amount'', ''outcome''])))"
    using m validateRequired_missing
            [of "JObj [(''marketId'', getProp params ''marketId''),
                       (''amount'', getProp params ''amount''),
                       (''outcome'', getProp params ''outcome'')]"
                "[''marketId'', ''amount'', ''outcome'']"]
    by (simp only: missing_rebuilt3) simp
  then show "projectProbability h net c params
              = (Inl (PlainError (missingMessage
                   (missing params [''marketId'', ''amount'', ''outcome'']))), c)"
    using assms by (simp add: projectProbability_def Let_def throw_def)
next
  assume "missing params [''questionTitle'', ''description'', ''outcomeType'',
                            ''resolutionDateTime''] \<noteq> []"
  then show "create h net c params
              = (Inl (PlainError (missingMessage
                   (missing params [''questionTitle'', ''description'', ''outcomeType'',
                                    ''resolutionDateTime'']))), c)"
    using assms by (simp add: create_def validateRequired_missing throw_def)
qed

lemma markets_validation2:
  "(missing (JObj [(''marketId'', a), (''username'', b)]) [''marketId'', ''username''] \<noteq> [] \<longrightarrow>
      getUserPositions h net c a b
        = (Inl (PlainError (missingMessage
             (missing (JObj [(''marketId'', a), (''username'', b)])
                [''marketId'', ''username'']))), c))
   \<and> (missing (JObj [(''marketId'', a), (''resolutionResult'', b)])
         [''marketId'', ''resolutionResult''] \<noteq> [] \<longrightarrow>
      resolve h net c a b
        = (Inl (PlainError (missingMessage
             (missing (JObj [(''marketId'', a), (''resolutionResult'', b)])
                [''marketId'', ''resolutionResult'']))), c))"
  by (simp add: getUserPositions_def resolve_def validateRequired_missing throw_def)

lemma users_admin_validation:
  assumes "\<not> nullish params"
  shows "(missing params [''newPassword''] \<noteq> [] \<longrightarrow>
            changePassword h net c params
              = (Inl (PlainError (missingMessage (missing params [''newPassword'']))), c))
       \<and> (missing params [''username'', ''displayName'', ''email'', ''password'', ''userType'']
             \<noteq> [] \<longrightarrow>
            createUser h net c params
              = (Inl (PlainError (missingMessage
                   (missing params [''username'', ''displayName'', ''email'', ''password'',
                                    ''userType'']))), c))
       \<and> (missing params [''username'', ''displayName'', ''email'', ''password'', ''userType'']
             = []
            \<and> \<not> emailRegex_test (toStr h (getProp params ''email'')) \<longrightarrow>
            createUser h net c params = (Inl (PlainError ''Invalid email format''), c))"
  using assms
  by (simp add: changePassword_def createUser_def validateRequired_missing
        validateRequired_complete throw_def)

lemma auth_validation:
  assumes "\<not> nullish params"
  shows "(missing params [''username'', ''password''] \<noteq> [] \<longrightarrow>
            login h net c params
              = (Inl (PlainError (missingMessage (missing params [''username'', ''password'']))),
                 c))
       \<and> (getProp params ''username'' = JStr u \<and> \<not> nullish (getProp params ''password'')
            \<and> (length u < 3 \<or> 30 < length u) \<longrightarrow>
            login h net c params
              = (Inl (PlainError ''Username must be between 3 and 30 characters''), c))
       \<and> (getProp params ''username'' = JStr u \<and> 3 \<le> length u \<and> length u \<le> 30
            \<and> getProp params ''password'' = JStr [] \<longrightarrow>
            login h net c params
              = (Inl (PlainError ''Password must be at least 1 character''), c))"
proof (intro conjI impI)
  assume "missing params [''username'', ''password''] \<noteq> []"
  then show "login h net c params
              = (Inl (PlainError (missingMessage (missing params [''username'', ''password'']))),
                 c)"
    using assms by (simp add: login_def validateRequired_missing throw_def)
next
  assume a: "getProp params ''username'' = JStr u \<and> \<not> nullish (getProp params ''password'')
            \<and> (length u < 3 \<or> 30 < length u)"
  then have "missing params [''username'', ''password''] = []"
    by (simp add: missing_def)
  then have "validateRequired params [''username'', ''password''] = None"
    using assms by (rule validateRequired_complete [rotated])
  then show "login h net c params
              = (Inl (PlainError ''Username must be between 3 and 30 characters''), c)"
    using a by (auto simp: login_def js_lt_def js_gt_def throw_def)
next
  assume a: "getProp params ''username'' = JStr u \<and> 3 \<le> length u \<and> length u \<le> 30
            \<and> getProp params ''password'' = JStr []"
  then have "missing params [''username'', ''password''] = []"
    by (simp add: missing_def)
  then have "validateRequired params [''username'', ''password''] = None"
    using assms by (rule validateRequired_complete [rotated])
  then show "login h net c params
              = (Inl (PlainError ''Password must be at least 1 character''), c)"
    using a by (auto simp: login_def js_lt_def js_gt_def throw_def)
qed

lemma email_bad: "\<not> emailRegex_test ''not-an-email''"
  by code_simp

lemma email_good: "emailRegex_test ''newuser@example.com''"
  by code_simp

text \<open>
  C3, as amended. For every call of a resource method on an argument that is given
  (neither \<open>undefined\<close> nor \<open>null\<close>) that fails local validation (a missing required
  field in \<open>login\<close>, \<open>placeBet\<close>, \<open>sellPosition\<close>, \<open>projectProbability\<close>, \<open>create\<close>,
  \<open>getUserPositions\<close>, \<open>resolve\<close>, \<open>changePassword\<close> or \<open>createUser\<close>, a non-positive
  bet or sell amount, a username shorter than 3 or longer than 30 characters, an empty
  password, a malformed email), the thrown value is a plain \<open>Error\<close> with the validation
  message, not a SocialPredictError, and the client comes back as it was: the failure is
  raised before any verb method is called, so no request is made.
\<close>

theorem local_validation_throws_plain_error:
  assumes "\<not> nullish params"
  shows "(missing params [''username'', ''password''] \<noteq> [] \<longrightarrow>
            login h net c params
              = (Inl (PlainError (missingMessage (missing params [''username'', ''password'']))),
                 c))
       \<and> (getProp params ''username'' = JStr u \<and> \<not> nullish (getProp params ''password'')
            \<and> (length u < 3 \<or> 30 < length u) \<longrightarrow>
            login h net c params
              = (Inl (PlainError ''Username must be between 3 and 30 characters''), c))
       \<and> (getProp params ''username'' = JStr u \<and> 3 \<le> length u \<and> length u \<le> 30
            \<and> getProp params ''password'' = JStr [] \<longrightarrow>
            login h net c params
              = (Inl (PlainError ''Password must be at least 1 character''), c))
       \<and> (missing params [''marketId'', ''amount'', ''outcome''] \<noteq> [] \<longrightarrow>
            placeBet h net c params
              = (Inl (PlainError (missingMessage
                   (missing params [''marketId'', ''amount'', ''outcome'']))), c)
          \<and> sellPosition h net c params
              = (Inl (PlainError (missingMessage
                   (missing params [''marketId'', ''amount'', ''outcome'']))), c))
       \<and> (missing params [''marketId'', ''amount'', ''outcome''] = []
            \<and> js_le h (getProp params ''amount'') 0 \<longrightarrow>
            placeBet h net c params = (Inl (PlainError ''Bet amount must be greater than 0''), c)
          \<and> sellPosition h net c params
              = (Inl (PlainError ''Sell amount must be greater than 0''), c))
       \<and> (missing params [''marketId'', ''amount'', ''outcome''] \<noteq> [] \<longrightarrow>
            projectProbability h net c params
              = (Inl (PlainError (missingMessage
                   (missing params [''marketId'', ''amount'', ''outcome'']))), c))
       \<and> (missing params [''questionTitle'', ''description'', ''outcomeType'',
                            ''resolutionDateTime''] \<noteq> [] \<longrightarrow>
            create h net c params
              = (Inl (PlainError (missingMessage
                   (missing params [''questionTitle'', ''description'', ''outcomeType'',
                                    ''resolutionDateTime'']))), c))
       \<and> (missing (JObj [(''marketId'', a), (''username'', b)]) [''marketId'', ''username'']
             \<noteq> [] \<longrightarrow>
            getUserPositions h net c a b
              = (Inl (PlainError (missingMessage
                   (missing (JObj [(''marketId'', a), (''username'', b)])
                      [''marketId'', ''username'']))), c))
       \<and> (missing (JObj [(''marketId'', a), (''resolutionResult'', b)])
               [''marketId'', ''resolutionResult''] \<noteq> [] \<longrightarrow>
            resolve h net c a b
              = (Inl (PlainError (missingMessage
                   (missing (JObj [(''marketId'', a), (''resolutionResult'', b)])
                      [''marketId'', ''resolutionResult'']))), c))
       \<and> (missing params [''newPassword''] \<noteq> [] \<longrightarrow>
            changePassword h net c params
              = (Inl (PlainError (missingMessage (missing params [''newPassword'']))), c))
       \<and> (missing params [''username'', ''displayName'', ''email'', ''password'', ''userType'']
             \<noteq> [] \<longrightarrow>
            createUser h net c params
              = (Inl (PlainError (missingMessage
                   (missing params [''username'', ''displayName'', ''email'', ''password'',
                                    ''userType'']))), c))
       \<and> (missing params [''username'', ''displayName'', ''email'', ''password'', ''userType'']
             = []
            \<and> \<not> emailRegex_test (toStr h (getProp params ''email'')) \<longrightarrow>
            createUser h net c params = (Inl (PlainError ''Invalid email format''), c))
       \<and> \<not> isErrorType (PlainError msg)"
  using auth_validation [OF assms, of h net c u]
    betting_validation [OF assms, of h net c] markets_validation [OF assms, of h net c]
    markets_validation2 [of a b h net c] users_admin_validation [OF assms, of h net c]
  by simp

theorem local_validation_throws_plain_error_witness:
  "login example_host (mock_reply (Fulfilled 200 JNull))
       (HttpClient_new ''http://localhost:8080'' no_options)
       (JObj [(''username'', JStr ''ab''), (''password'', JStr ''x'')])
     = (Inl (PlainError ''Username must be between 3 and 30 characters''),
        HttpClient_new ''http://localhost:8080'' no_options)
   \<and> login example_host (mock_reply (Fulfilled 200 JNull))
       (HttpClient_new ''http://localhost:8080'' no_options)
       (JObj [(''username'', JStr ''validuser''), (''password'', JStr [])])
     = (Inl (PlainError ''Password must be at least 1 character''),
        HttpClient_new ''http://localhost:8080'' no_options)
   \<and> placeBet example_host (mock_reply (Fulfilled 201 JNull))
       (HttpClient_new ''http://localhost:8080'' no_options) (JObj [(''marketId'', JNum 1)])
     = (Inl (PlainError ''Missing required parameters: amount, outcome''),
        HttpClient_new ''http://localhost:8080'' no_options)
   \<and> sellPosition example_host (mock_reply (Fulfilled 201 JNull))
       (HttpClient_new ''http://localhost:8080'' no_options)
       (JObj [(''marketId'', JNum 1), (''amount'', JNum (- 25)), (''outcome'', JStr ''yes'')])
     = (Inl (PlainError ''Sell amount must be greater than 0''),
        HttpClient_new ''http://localhost:8080'' no_options)
   \<and> createUser example_host (mock_reply (Fulfilled 201 JNull))
       (HttpClient_new ''http://localhost:8080'' no_options)
       (JObj [(''username'', JStr ''newuser''), (''displayName'', JStr ''New User''),
              (''email'', JStr ''not-an-email''), (''password'', JStr ''securepassword''),
              (''userType'', JStr ''standard'')])
     = (Inl (PlainError ''Invalid email format''),
        HttpClient_new ''http://localhost:8080'' no_options)"
  using local_validation_throws_plain_error
          [where params = "JObj [(''username'', JStr ''ab''), (''password'', JStr ''x'')]"
             and h = example_host and net = "mock_reply (Fulfilled 200 JNull)"
             and c = "HttpClient_new ''http://localhost:8080'' no_options"
             and a = JNull and b = JNull and msg = "[]" and u = "''ab''"]
        local_validation_throws_plain_error
          [where params = "JObj [(''username'', JStr ''validuser''), (''password'', JStr [])]"
             and h = example_host and net = "mock_reply (Fulfilled 200 JNull)"
             and c = "HttpClient_new ''http://localhost:8080'' no_options"
             and a = JNull and b = JNull and msg = "[]" and u = "''validuser''"]
        local_validation_throws_plain_error
          [where params = "JObj [(''marketId'', JNum 1)]" and h = example_host
             and net = "mock_reply (Fulfilled 201 JNull)"
             and c = "HttpClient_new ''http://localhost:8080'' no_options"
             and a = JNull and b = JNull and msg = "[]" and u = "[]"]
        local_validation_throws_plain_error
          [where params = "JObj [(''marketId'', JNum 1), (''amount'', JNum (- 25)),
                                 (''outcome'', JStr ''yes'')]"
             and h = example_host and net = "mock_reply (Fulfilled 201 JNull)"
             and c = "HttpClient_new ''http://localhost:8080'' no_options"
             and a = JNull and b = JNull and msg = "[]" and u = "[]"]
        local_validation_throws_plain_error
          [where params = "JObj [(''username'', JStr ''newuser''),
                                 (''displayName'', JStr ''New User''),
                                 (''email'', JStr ''not-an-email''),
                                 (''password'', JStr ''securepassword''),
                                 (''userType'', JStr ''standard'')]"
             and h = example_host and net = "mock_reply (Fulfilled 201 JNull)"
             and c = "HttpClient_new ''http://localhost:8080'' no_options"
             and a = JNull and b = JNull and msg = "[]" and u = "[]"]
  by (simp add: missing_def missingMessage_def js_le_def email_bad inherited_def
        objectPrototypeNames_def)

text \<open>
  The claim as first stated says that the thrown value is a SocialPredictError.
  \<open>placeBet({marketId: 1, amount: -5, outcome: "yes"})\<close> throws a plain \<open>Error\<close>.
\<close>

theorem nonpositive_bet_throws_plain_error:
  "fst (placeBet example_host (mock_reply (Fulfilled 201 JNull))
          (HttpClient_new ''http://localhost:8080'' no_options)
          (JObj [(''marketId'', JNum 1), (''amount'', JNum (- 5)), (''outcome'', JStr ''yes'')]))
     = Inl (PlainError ''Bet amount must be greater than 0'')
   \<and> \<not> isErrorType (PlainError ''Bet amount must be greater than 0'')"
  by (simp add: placeBet_def validateRequired_def missing_def js_le_def throw_def)

subsection \<open>formatDate and create\<close>

lemma interceptor_keeps_request:
  "req_method (request_interceptor h c config) = req_method config
   \<and> req_url (request_interceptor h c config) = req_url config
   \<and> req_params (request_interceptor h c config) = req_params config
   \<and> req_data (request_interceptor h c config) = req_data config"
  by (simp add: request_interceptor_def split: option.split)

lemma post_history:
  "history (snd (HttpClient_post h net c path (JObj body)))
     = history c @ [request_interceptor h c (base_config c POST path None (Some (JObj body)))]"
  by (simp add: HttpClient_post_def dispatch_history orEmpty_def)

lemma iso_example: "toISOString 1760529600000 = ''2025-10-15T12:00:00.000Z''"
  by code_simp

lemma replicate_numeral: "replicate (numeral k) x = x # replicate (pred_numeral k) x"
  by (simp add: numeral_eq_Suc)

lemmas isoFormat_eval = isoFormat_def yearString_def pad_def digits10.simps replicate_numeral

lemmas toISOString_eval = toISOString_def YearFromTime_def YearFromDay_def Day_def msPerDay_def
  DayFromYear_def MonthFromTime_def DateFromTime_def DayWithinYear_def InLeapYear_def
  DaysInYear_def HourFromTime_def MinFromTime_def SecFromTime_def msFromTime_def

lemma isoFormat_examples:
  "isoFormat 2025 10 15 12 0 0 0 = ''2025-10-15T12:00:00.000Z''"
  "isoFormat 33 4 3 9 5 7 8 = ''0033-04-03T09:05:07.008Z''"
  "isoFormat 0 1 1 0 0 0 0 = ''0000-01-01T00:00:00.000Z''"
  "isoFormat 9999 12 31 23 59 59 999 = ''9999-12-31T23:59:59.999Z''"
  "isoFormat 10000 1 1 0 0 0 0 = ''+010000-01-01T00:00:00.000Z''"
  "isoFormat (- 1) 12 31 23 59 59 999 = ''-000001-12-31T23:59:59.999Z''"
  by (simp_all add: isoFormat_eval)

lemma toISOString_latest: "toISOString 8640000000000000 = ''+275760-09-13T00:00:00.000Z''"
  by (simp add: toISOString_eval isoFormat_eval)

lemma toISOString_earliest: "toISOString (- 8640000000000000) = ''-271821-04-20T00:00:00.000Z''"
  by (simp add: toISOString_eval isoFormat_eval)

text \<open>
  C6, as amended. \<open>formatDate\<close> returns the ISO-8601 UTC timestamp string of every valid
  date (a \<open>Date\<close> that holds a time value \<open>t\<close>) and returns every string unchanged. The
  timestamp is \<open>YYYY-MM-DDTHH:mm:ss.sssZ\<close> (a sign and six digits for a year outside
  \<open>0..9999\<close>), written from the year, the month counted from \<open>1\<close>, the day of the
  month, the hour, the minute, the second and the millisecond of \<open>t\<close>; these fields lie
  in their calendar ranges and denote the instant \<open>t\<close> itself. So \<open>create\<close> on an
  object that passes the required-field check and whose \<open>resolutionDateTime\<close> is a valid
  date posts to \<open>/v0/create\<close> a body in which that field is the ISO string of the same
  instant, every other field has the value it had, and the fields keep their order.
\<close>

theorem create_sends_iso_timestamp:
  "formatDate (JDate (Some t)) = Inr (JStr (toISOString t))
   \<and> toISOString t
       = isoFormat (YearFromTime t) (MonthFromTime t + 1) (DateFromTime t)
           (HourFromTime t) (MinFromTime t) (SecFromTime t) (msFromTime t)
   \<and> timeOfFields (YearFromTime t) (MonthFromTime t) (DateFromTime t)
        (HourFromTime t) (MinFromTime t) (SecFromTime t) (msFromTime t) = t
   \<and> 0 \<le> MonthFromTime t \<and> MonthFromTime t \<le> 11
   \<and> 1 \<le> DateFromTime t \<and> DateFromTime t \<le> daysInMonth (YearFromTime t) (MonthFromTime t)
   \<and> 0 \<le> HourFromTime t \<and> HourFromTime t < 24 \<and> 0 \<le> MinFromTime t \<and> MinFromTime t < 60
   \<and> 0 \<le> SecFromTime t \<and> SecFromTime t < 60 \<and> 0 \<le> msFromTime t \<and> msFromTime t < 1000
   \<and> isoFormat 2025 10 15 12 0 0 0 = ''2025-10-15T12:00:00.000Z''
   \<and> isoFormat 33 4 3 9 5 7 8 = ''0033-04-03T09:05:07.008Z''
   \<and> isoFormat 0 1 1 0 0 0 0 = ''0000-01-01T00:00:00.000Z''
   \<and> isoFormat 9999 12 31 23 59 59 999 = ''9999-12-31T23:59:59.999Z''
   \<and> isoFormat 10000 1 1 0 0 0 0 = ''+010000-01-01T00:00:00.000Z''
   \<and> isoFormat (- 1) 12 31 23 59 59 999 = ''-000001-12-31T23:59:59.999Z''
   \<and> formatDate (JDate (Some 1760529600000)) = Inr (JStr ''2025-10-15T12:00:00.000Z'')
   \<and> formatDate (JDate (Some (- 1))) = Inr (JStr ''1969-12-31T23:59:59.999Z'')
   \<and> formatDate (JDate (Some 1709210096789)) = Inr (JStr ''2024-02-29T12:34:56.789Z'')
   \<and> formatDate (JDate (Some 8640000000000000)) = Inr (JStr ''+275760-09-13T00:00:00.000Z'')
   \<and> formatDate (JDate (Some (- 8640000000000000)))
       = Inr (JStr ''-271821-04-20T00:00:00.000Z'')
   \<and> formatDate (JStr s) = Inr (JStr s)
   \<and> (validateRequired (JObj ps)
         [''questionTitle'', ''description'', ''outcomeType'', ''resolutionDateTime''] = None
       \<and> map_of ps ''resolutionDateTime'' = Some (JDate (Some t)) \<longrightarrow>
         create h net c (JObj ps)
           = HttpClient_post h net c ''/v0/create''
               (JObj (AList.update ''resolutionDateTime'' (JStr (toISOString t)) ps))
       \<and> (\<exists>r. history (snd (create h net c (JObj ps))) = history c @ [r]
              \<and> req_method r = POST \<and> req_url r = ''/v0/create''
              \<and> req_data r
                  = Some (JObj (AList.update ''resolutionDateTime'' (JStr (toISOString t)) ps)))
       \<and> map_of (AList.update ''resolutionDateTime'' (JStr (toISOString t)) ps)
            ''resolutionDateTime'' = Some (JStr (toISOString t))
       \<and> (\<forall>k. k \<noteq> ''resolutionDateTime'' \<longrightarrow>
             map_of (AList.update ''resolutionDateTime'' (JStr (toISOString t)) ps) k
               = map_of ps k)
       \<and> map fst (AList.update ''resolutionDateTime'' (JStr (toISOString t)) ps) = map fst ps)"
proof -
  have rendering:
    "formatDate (JDate (Some t)) = Inr (JStr (toISOString t))
     \<and> toISOString t
         = isoFormat (YearFromTime t) (MonthFromTime t + 1) (DateFromTime t)
             (HourFromTime t) (MinFromTime t) (SecFromTime t) (msFromTime t)"
    by (simp add: toISOString_def)
  have examples:
    "formatDate (JDate (Some 1760529600000)) = Inr (JStr ''2025-10-15T12:00:00.000Z'')
     \<and> formatDate (JDate (Some (- 1))) = Inr (JStr ''1969-12-31T23:59:59.999Z'')
     \<and> formatDate (JDate (Some 1709210096789)) = Inr (JStr ''2024-02-29T12:34:56.789Z'')
     \<and> formatDate (JDate (Some 8640000000000000)) = Inr (JStr ''+275760-09-13T00:00:00.000Z'')
     \<and> formatDate (JDate (Some (- 8640000000000000)))
         = Inr (JStr ''-271821-04-20T00:00:00.000Z'')
     \<and> formatDate (JStr s) = Inr (JStr s)"
    by (simp add: iso_example toISOString_before_epoch toISOString_leap_day toISOString_latest
          toISOString_earliest)
  have posted:
    "create h net c (JObj ps)
           = HttpClient_post h net c ''/v0/create''
               (JObj (AList.update ''resolutionDateTime'' (JStr (toISOString t)) ps))
       \<and> (\<exists>r. history (snd (create h net c (JObj ps))) = history c @ [r]
              \<and> req_method r = POST \<and> req_url r = ''/v0/create''
              \<and> req_data r
                  = Some (JObj (AList.update ''resolutionDateTime'' (JStr (toISOString t)) ps)))
       \<and> map_of (AList.update ''resolutionDateTime'' (JStr (toISOString t)) ps)
            ''resolutionDateTime'' = Some (JStr (toISOString t))
       \<and> (\<forall>k. k \<noteq> ''resolutionDateTime'' \<longrightarrow>
             map_of (AList.update ''resolutionDateTime'' (JStr (toISOString t)) ps) k
               = map_of ps k)
       \<and> map fst (AList.update ''resolutionDateTime'' (JStr (toISOString t)) ps) = map fst ps"
    if a: "validateRequired (JObj ps)
         [''questionTitle'', ''description'', ''outcomeType'', ''resolutionDateTime''] = None
       \<and> map_of ps ''resolutionDateTime'' = Some (JDate (Some t))"
  proof (intro conjI)
    let ?body = "AList.update ''resolutionDateTime'' (JStr (toISOString t)) ps"
    from a show cr:
      "create h net c (JObj ps) = HttpClient_post h net c ''/v0/create'' (JObj ?body)"
      by (simp add: create_def)
    show "\<exists>r. history (snd (create h net c (JObj ps))) = history c @ [r]
              \<and> req_method r = POST \<and> req_url r = ''/v0/create''
              \<and> req_data r = Some (JObj ?body)"
      unfolding cr post_history
      by (simp add: interceptor_keeps_request) (simp add: base_config_def)
    show "map_of ?body ''resolutionDateTime'' = Some (JStr (toISOString t))"
      by (simp add: update_conv')
    show "\<forall>k. k \<noteq> ''resolutionDateTime'' \<longrightarrow> map_of ?body k = map_of ps k"
      by (simp add: update_conv')
    from a have "''resolutionDateTime'' \<in> fst ` set ps"
      by (auto dest: map_of_SomeD intro: rev_image_eqI)
    then show "map fst ?body = map fst ps"
      by (simp add: update_keys)
  qed
  from rendering fields_denote_time [of t] Month_range [of t] Date_within_month [of t]
    time_ranges [of t] isoFormat_examples examples posted
  show ?thesis by blast
qed

theorem create_sends_iso_timestamp_witness:
  "formatDate (JDate (Some 1760529600000)) = Inr (JStr ''2025-10-15T12:00:00.000Z'')
   \<and> formatDate (JStr ''2025-10-08T12:00:00Z'') = Inr (JStr ''2025-10-08T12:00:00Z'')
   \<and> create example_host (mock_reply (Fulfilled 201 JNull))
        (HttpClient_new ''http://localhost:8080'' no_options)
        (JObj [(''questionTitle'', JStr ''Will it rain tomorrow?''),
               (''description'', JStr ''Weather prediction''),
               (''outcomeType'', JStr ''binary''),
               (''resolutionDateTime'', JDate (Some 1760529600000)),
               (''initialProbability'', JNum 1)])
      = HttpClient_post example_host (mock_reply (Fulfilled 201 JNull))
          (HttpClient_new ''http://localhost:8080'' no_options) ''/v0/create''
          (JObj [(''questionTitle'', JStr ''Will it rain tomorrow?''),
                 (''description'', JStr ''Weather prediction''),
                 (''outcomeType'', JStr ''binary''),
                 (''resolutionDateTime'', JStr ''2025-10-15T12:00:00.000Z''),
                 (''initialProbability'', JNum 1)])"
proof -
  let ?ps = "[(''questionTitle'', JStr ''Will it rain tomorrow?''),
               (''description'', JStr ''Weather prediction''),
               (''outcomeType'', JStr ''binary''),
               (''resolutionDateTime'', JDate (Some 1760529600000)),
               (''initialProbability'', JNum 1)]"
  have v: "validateRequired (JObj ?ps)
             [''questionTitle'', ''description'', ''outcomeType'', ''resolutionDateTime''] = None
           \<and> map_of ?ps ''resolutionDateTime'' = Some (JDate (Some 1760529600000))"
    by (simp add: validateRequired_def missing_def)
  have "create example_host (mock_reply (Fulfilled 201 JNull))
          (HttpClient_new ''http://localhost:8080'' no_options) (JObj ?ps)
        = HttpClient_post example_host (mock_reply (Fulfilled 201 JNull))
            (HttpClient_new ''http://localhost:8080'' no_options) ''/v0/create''
            (JObj (AList.update ''resolutionDateTime'' (JStr (toISOString 1760529600000)) ?ps))"
    using v create_sends_iso_timestamp
          [where t = 1760529600000 and ps = ?ps and h = example_host
             and net = "mock_reply (Fulfilled 201 JNull)"
             and c = "HttpClient_new ''http://localhost:8080'' no_options"]
    by blast
  then show ?thesis
    by (simp add: iso_example)
qed

text \<open>
  The claim as first stated covers every date value. A \<open>Date\<close> that holds no time value
  (an Invalid Date, such as \<open>new Date("soon")\<close>) is a date value too: \<open>formatDate\<close>
  throws the \<open>RangeError\<close> of \<open>toISOString\<close> on it and returns no string, and
  \<open>create\<close> throws it before any request is made.
\<close>

theorem invalid_date_is_not_rendered:
  "formatDate (JDate None) = Inl RangeError
   \<and> create example_host (mock_reply (Fulfilled 201 JNull))
        (HttpClient_new ''http://localhost:8080'' no_options)
        (JObj [(''questionTitle'', JStr ''Will it rain tomorrow?''),
               (''description'', JStr ''Weather prediction''),
               (''outcomeType'', JStr ''binary''),
               (''resolutionDateTime'', JDate None)])
      = (Inl RangeError, HttpClient_new ''http://localhost:8080'' no_options)"
  by (simp add: create_def validateRequired_def missing_def throw_def)

end
